theory Spec2Isabelle
  imports Complex_Main "HOL-Library.Word"
begin

unbundle bit_operations_syntax

chapter \<open>Parabola: scene representation and render pipeline\<close>

text \<open>
  A shallow embedding of the material, shader, mesh and scene modules of the renderer:
  \<^verbatim>\<open>Mtrl\<close>, \<^verbatim>\<open>Shader\<close>, \<^verbatim>\<open>Mesh\<close> and \<^verbatim>\<open>SolidModel\<close>.

  Conventions of the embedding.
  \<^item> A JavaScript number that only ever meets the bit operators is a \<open>32 word\<close>: the
    operators \<^verbatim>\<open>&\<close>, \<^verbatim>\<open>|\<close>, \<^verbatim>\<open><<\<close> and \<^verbatim>\<open>>>\<close> convert their operands with ToInt32.
  \<^item> Every other number is a \<open>real\<close>; the rounding of double and single precision
    arithmetic is not modelled.
  \<^item> A typed array is the list of its elements.
  \<^item> An object is a record of the properties its constructor creates; a reference that
    can be \<^verbatim>\<open>null\<close> is an \<open>option\<close>.
  \<^item> Calls into a library that is not part of the sources (WebGL, gl-matrix, the shader
    graph, the entity store) are recorded in the state they act on.
\<close>

section \<open>Materials (mtrl.js)\<close>

type_synonym int32 = "32 word"

text \<open>The exception of a property read or a call on \<^verbatim>\<open>null\<close> or \<^verbatim>\<open>undefined\<close>.\<close>

datatype js_error = TypeError

text \<open>An array read \<^verbatim>\<open>xs[i]\<close>: \<^verbatim>\<open>undefined\<close> outside the array.\<close>

definition array_get :: "'a list \<Rightarrow> nat \<Rightarrow> 'a option" where
  "array_get xs i = (if i < length xs then Some (xs ! i) else None)"

text \<open>
  What \<^verbatim>\<open>createTexture\<close> leaves in the GL texture object: the two wrap modes, the two
  filters, the uploaded image and whether mipmaps were generated.
\<close>

datatype wrap_mode = CLAMP_TO_EDGE | REPEAT

datatype tex_filter = LINEAR | LINEAR_MIPMAP_LINEAR

record 'img texture =
  wrap_s :: wrap_mode
  wrap_t :: wrap_mode
  mag_filter :: tex_filter
  min_filter :: tex_filter
  image :: 'img
  mipmap :: bool

text \<open>
  The material object. The one-letter properties \<^verbatim>\<open>d a s e h fl f\<close> of the source carry the
  prefix \<open>mtrl_\<close>; \<open>loading\<close> is the property \<^verbatim>\<open>_loading\<close>, which is either absent
  (\<open>False\<close>) or \<^verbatim>\<open>true\<close>.
\<close>

record 'img Mtrl =
  mtrl_d :: "real list"
  mtrl_a :: "real list"
  mtrl_s :: "real list"
  mtrl_e :: "real list"
  mtrl_h :: "real list"
  mtrl_fl :: int32
  mtrl_f :: string
  alpha_func :: int
  alpha_ref :: real
  tex :: "'img texture option"
  loading :: bool

text \<open>
  The constructor \<^verbatim>\<open>function ()\<close> declares no parameter: the argument of
  \<^verbatim>\<open>new Mtrl(sol.mv[i])\<close> is dropped.
\<close>

definition Mtrl_new :: "'rec \<Rightarrow> 'img Mtrl" where
  "Mtrl_new solMtrl =
     \<lparr> mtrl_d = [0.8, 0.8, 0.8, 1.0],
       mtrl_a = [0.2, 0.2, 0.2, 1.0],
       mtrl_s = [0, 0, 0, 1],
       mtrl_e = [0, 0, 0, 1],
       mtrl_h = [0],
       mtrl_fl = 0,
       mtrl_f = [],
       alpha_func = 0,
       alpha_ref = 0,
       tex = None,
       loading = False \<rparr>"

subsection \<open>Material type flags\<close>

definition Mtrl_PARTICLE :: int32 where "Mtrl_PARTICLE = push_bit 10 1"
definition Mtrl_ALPHA_TEST :: int32 where "Mtrl_ALPHA_TEST = push_bit 9 1"
definition Mtrl_REFLECTIVE :: int32 where "Mtrl_REFLECTIVE = push_bit 8 1"
definition Mtrl_TRANSPARENT :: int32 where "Mtrl_TRANSPARENT = push_bit 7 1"
definition Mtrl_SHADOWED :: int32 where "Mtrl_SHADOWED = push_bit 6 1"
definition Mtrl_DECAL :: int32 where "Mtrl_DECAL = push_bit 5 1"
definition Mtrl_ENVIRONMENT :: int32 where "Mtrl_ENVIRONMENT = push_bit 4 1"
definition Mtrl_TWO_SIDED :: int32 where "Mtrl_TWO_SIDED = push_bit 3 1"
definition Mtrl_ADDITIVE :: int32 where "Mtrl_ADDITIVE = push_bit 2 1"
definition Mtrl_CLAMP_S :: int32 where "Mtrl_CLAMP_S = push_bit 1 1"
definition Mtrl_CLAMP_T :: int32 where "Mtrl_CLAMP_T = push_bit 0 1"

subsection \<open>Material sorting rules\<close>

text \<open>A rule object \<^verbatim>\<open>{ in: ..., ex: ... }\<close>.\<close>

record rules =
  rules_in :: int32
  rules_ex :: int32

definition opaqueRules :: rules where
  "opaqueRules = \<lparr> rules_in = 0, rules_ex = Mtrl_REFLECTIVE OR Mtrl_TRANSPARENT OR Mtrl_DECAL \<rparr>"

definition opaqueDecalRules :: rules where
  "opaqueDecalRules = \<lparr> rules_in = Mtrl_DECAL, rules_ex = Mtrl_REFLECTIVE OR Mtrl_TRANSPARENT \<rparr>"

definition transparentDecalRules :: rules where
  "transparentDecalRules = \<lparr> rules_in = Mtrl_DECAL OR Mtrl_TRANSPARENT, rules_ex = Mtrl_REFLECTIVE \<rparr>"

definition transparentRules :: rules where
  "transparentRules = \<lparr> rules_in = Mtrl_TRANSPARENT, rules_ex = Mtrl_REFLECTIVE OR Mtrl_DECAL \<rparr>"

definition reflectiveRules :: rules where
  "reflectiveRules = \<lparr> rules_in = Mtrl_REFLECTIVE, rules_ex = 0 \<rparr>"

definition test :: "'img Mtrl \<Rightarrow> rules \<Rightarrow> bool" where
  "test this r = (mtrl_fl this AND rules_in r = rules_in r \<and> mtrl_fl this AND rules_ex r = 0)"

definition isOpaque :: "'img Mtrl \<Rightarrow> bool" where
  "isOpaque this = test this opaqueRules"

definition isOpaqueDecal :: "'img Mtrl \<Rightarrow> bool" where
  "isOpaqueDecal this = test this opaqueDecalRules"

definition isTransparentDecal :: "'img Mtrl \<Rightarrow> bool" where
  "isTransparentDecal this = test this transparentDecalRules"

definition isTransparent :: "'img Mtrl \<Rightarrow> bool" where
  "isTransparent this = test this transparentRules"

definition isReflective :: "'img Mtrl \<Rightarrow> bool" where
  "isReflective this = test this reflectiveRules"

text \<open>The five bucket predicates, in draw order, evaluated on one material.\<close>

definition buckets :: "'img Mtrl \<Rightarrow> bool list" where
  "buckets this =
     [isReflective this, isOpaque this, isOpaqueDecal this, isTransparentDecal this,
      isTransparent this]"

subsection \<open>Textures\<close>

definition createTexture :: "'img \<Rightarrow> 'img Mtrl \<Rightarrow> 'img Mtrl" where
  "createTexture img this =
     this\<lparr> tex := Some
       \<lparr> wrap_s = (if mtrl_fl this AND Mtrl_CLAMP_S \<noteq> 0 then CLAMP_TO_EDGE else REPEAT),
         wrap_t = (if mtrl_fl this AND Mtrl_CLAMP_T \<noteq> 0 then CLAMP_TO_EDGE else REPEAT),
         mag_filter = LINEAR,
         min_filter = LINEAR_MIPMAP_LINEAR,
         image = img,
         mipmap = True \<rparr> \<rparr>"

definition Mtrl_toString :: "'img Mtrl \<Rightarrow> string" where
  "Mtrl_toString this = mtrl_f this"

text \<open>
  What \<^verbatim>\<open>loadTexture\<close> does to its surroundings: the arguments of the calls of
  \<^verbatim>\<open>data.fetchImage\<close> so far, and the lines written to the console.
\<close>

record js_env =
  fetches :: "string option list"
  console :: "string list"

text \<open>
  The table \<^verbatim>\<open>mtrl-images.json\<close> is not part of the sources: it is the parameter
  \<open>mtrlImages\<close>, from material names to image paths. \<^verbatim>\<open>!mtrlImages[name]\<close> holds when
  the name has no entry, and when the entry is the empty string.
\<close>

definition falsy :: "string option \<Rightarrow> bool" where
  "falsy v = (case v of None \<Rightarrow> True | Some str \<Rightarrow> str = [])"

definition loadTexture ::
  "(string \<Rightarrow> string option) \<Rightarrow> 'img Mtrl \<times> js_env \<Rightarrow> 'img Mtrl \<times> js_env" where
  "loadTexture mtrlImages st =
     (case st of (this, env) \<Rightarrow>
        if loading this then (this, env)
        else if tex this \<noteq> None then
          (this, env\<lparr> console := console env @
             [''Material '' @ Mtrl_toString this @ '' has already been loaded''] \<rparr>)
        else if falsy (mtrlImages (Mtrl_toString this)) then
          (this, env\<lparr> console := console env @
             [''Material '' @ Mtrl_toString this @ '' is unknown''] \<rparr>)
        else
          (this\<lparr> loading := True \<rparr>,
           env\<lparr> fetches := fetches env @ [mtrlImages (mtrl_f this)] \<rparr>))"

text \<open>The callback given to \<^verbatim>\<open>then\<close>: it runs when the fetched image arrives.\<close>

definition loadTexture_then :: "'img \<Rightarrow> 'img Mtrl \<Rightarrow> 'img Mtrl" where
  "loadTexture_then img self = (createTexture img self)\<lparr> loading := False \<rparr>"

subsection \<open>Applying material state\<close>

text \<open>
  The GL state that \<^verbatim>\<open>Mtrl.prototype.draw\<close> and \<^verbatim>\<open>Mesh.prototype.draw\<close> write: the
  texture binding, the uniforms (named after the location they are written through),
  blending, culling, polygon offset, the array buffer binding and the vertex attributes.
  A vertex attribute pointer holds the buffer bound when it was set, the size, the stride
  and the offset.
\<close>

datatype blend_factor = SRC_ALPHA | ONE | ONE_MINUS_SRC_ALPHA

record 'img render_state =
  TEXTURE_2D :: "'img texture option"
  uDiffuse :: "real list"
  uAmbient :: "real list"
  uSpecular :: "real list"
  uEmissive :: "real list"
  uShininess :: "real option"
  uEnvironment :: int
  blendFunc :: "blend_factor \<times> blend_factor"
  CULL_FACE :: bool
  POLYGON_OFFSET_FILL :: bool
  polygonOffset :: "real \<times> real"
  ARRAY_BUFFER :: "nat option"
  enabledArrays :: "nat set"
  vertexAttribs :: "nat \<Rightarrow> (nat option \<times> nat \<times> nat \<times> nat) option"

text \<open>
  The object \<^verbatim>\<open>state\<close> of \<^verbatim>\<open>gl-state.js\<close>, which is not part of the sources: the
  properties the two draw functions read.
\<close>

record 'img GLState =
  enableTextures :: bool
  defaultTexture :: "'img texture option"
  uPositionID :: nat
  aPositionID :: nat
  aNormalID :: nat
  aTexCoordID :: nat

definition Mtrl_draw :: "'img GLState \<Rightarrow> 'img Mtrl \<Rightarrow> 'img render_state \<Rightarrow> 'img render_state" where
  "Mtrl_draw state this gl =
     (let gl = (if enableTextures state \<and> tex this \<noteq> None
                then gl\<lparr> TEXTURE_2D := tex this \<rparr>
                else gl\<lparr> TEXTURE_2D := defaultTexture state \<rparr>);
          gl = gl\<lparr> uDiffuse := mtrl_d this \<rparr>;
          gl = gl\<lparr> uAmbient := mtrl_a this \<rparr>;
          gl = gl\<lparr> uSpecular := mtrl_s this \<rparr>;
          gl = gl\<lparr> uEmissive := mtrl_e this \<rparr>;
          gl = gl\<lparr> uShininess := (case mtrl_h this of [] \<Rightarrow> None | x # xs \<Rightarrow> Some x) \<rparr>;
          gl = (if mtrl_fl this AND Mtrl_ENVIRONMENT \<noteq> 0
                then gl\<lparr> uEnvironment := 1 \<rparr> else gl\<lparr> uEnvironment := 0 \<rparr>);
          gl = (if mtrl_fl this AND Mtrl_ADDITIVE \<noteq> 0
                then gl\<lparr> blendFunc := (SRC_ALPHA, ONE) \<rparr>
                else gl\<lparr> blendFunc := (SRC_ALPHA, ONE_MINUS_SRC_ALPHA) \<rparr>);
          gl = (if mtrl_fl this AND Mtrl_TWO_SIDED \<noteq> 0
                then gl\<lparr> CULL_FACE := False \<rparr> else gl\<lparr> CULL_FACE := True \<rparr>);
          gl = (if mtrl_fl this AND Mtrl_DECAL \<noteq> 0
                then gl\<lparr> POLYGON_OFFSET_FILL := True, polygonOffset := (- 1.0, - 2.0) \<rparr>
                else gl\<lparr> polygonOffset := (0.0, 0.0), POLYGON_OFFSET_FILL := False \<rparr>)
      in gl)"

section \<open>Shader variants\<close>

text \<open>
  The values a property read can yield here: \<^verbatim>\<open>undefined\<close>, a number, or a value of
  another type (\<^verbatim>\<open>null\<close>, a string, an object, a function).
\<close>

datatype js_value = JS_undefined | JS_number real | JS_other

text \<open>
  ToInt32, the conversion the bit operators apply to their operands, on \<^verbatim>\<open>undefined\<close>
  (which converts to NaN, then to 0) and on numbers (truncated, then taken modulo
  \<open>2 ^ 32\<close>). The conversion of a value of another type is left unspecified.
\<close>

fun ToInt32 :: "js_value \<Rightarrow> int32" where
  "ToInt32 JS_undefined = 0"
| "ToInt32 (JS_number x) = word_of_int (if 0 \<le> x then \<lfloor>x\<rfloor> else \<lceil>x\<rceil>)"

text \<open>A property read \<^verbatim>\<open>obj.name\<close> on the list of the properties of an object.\<close>

definition js_get :: "(string \<times> js_value) list \<Rightarrow> string \<Rightarrow> js_value" where
  "js_get props name = (case map_of props name of None \<Rightarrow> JS_undefined | Some v \<Rightarrow> v)"

text \<open>
  The properties of the constructor function \<^verbatim>\<open>Mtrl\<close>: the eleven flags and the five
  rule objects assigned in \<^verbatim>\<open>mtrl.js\<close>, and what every function has.
\<close>

definition Mtrl_static :: "(string \<times> js_value) list" where
  "Mtrl_static =
     [(''PARTICLE'', JS_number (real_of_int (sint Mtrl_PARTICLE))),
      (''ALPHA_TEST'', JS_number (real_of_int (sint Mtrl_ALPHA_TEST))),
      (''REFLECTIVE'', JS_number (real_of_int (sint Mtrl_REFLECTIVE))),
      (''TRANSPARENT'', JS_number (real_of_int (sint Mtrl_TRANSPARENT))),
      (''SHADOWED'', JS_number (real_of_int (sint Mtrl_SHADOWED))),
      (''DECAL'', JS_number (real_of_int (sint Mtrl_DECAL))),
      (''ENVIRONMENT'', JS_number (real_of_int (sint Mtrl_ENVIRONMENT))),
      (''TWO_SIDED'', JS_number (real_of_int (sint Mtrl_TWO_SIDED))),
      (''ADDITIVE'', JS_number (real_of_int (sint Mtrl_ADDITIVE))),
      (''CLAMP_S'', JS_number (real_of_int (sint Mtrl_CLAMP_S))),
      (''CLAMP_T'', JS_number (real_of_int (sint Mtrl_CLAMP_T))),
      (''opaqueRules'', JS_other),
      (''opaqueDecalRules'', JS_other),
      (''transparentDecalRules'', JS_other),
      (''transparentRules'', JS_other),
      (''reflectiveRules'', JS_other),
      (''prototype'', JS_other),
      (''length'', JS_number 0),
      (''name'', JS_other)]"

subsection \<open>Shader features\<close>

definition Shader_LIT :: int32 where "Shader_LIT = push_bit 0 1"
definition Shader_ENVIRONMENT :: int32 where "Shader_ENVIRONMENT = push_bit 1 1"
definition Shader_ALPHA_TEST :: int32 where "Shader_ALPHA_TEST = push_bit 2 7"

definition alphaFuncFromShaderFlags :: "int32 \<Rightarrow> int32" where
  "alphaFuncFromShaderFlags flags = signed_drop_bit 2 flags AND 0x7"

definition shaderFlagsFromAlphaFunc :: "js_value \<Rightarrow> int32" where
  "shaderFlagsFromAlphaFunc index = push_bit 2 (ToInt32 index AND 0x7)"

definition alphaFuncSnippets :: "string option list" where
  "alphaFuncSnippets =
     [None, Some ''testEqual'', Some ''testGequal'', Some ''testGreater'', Some ''testLequal'',
      Some ''testLess'', Some ''testNever'', Some ''testNotEqual'']"

text \<open>
  Gather shader flags from a SOL material. The argument \<open>mtrl\<close> is a material record of
  the decoded level, whose declaration is not part of the sources: it is an object given
  by the list of its properties, of which the function reads \<^verbatim>\<open>fl\<close> and \<^verbatim>\<open>alphaFunc\<close>.
\<close>

definition shaderFlagsFromMtrl :: "(string \<times> js_value) list \<Rightarrow> int32" where
  "shaderFlagsFromMtrl mtrl =
     (let flags = 0;
          flags = (if ToInt32 (js_get mtrl ''fl'') AND ToInt32 (js_get Mtrl_static ''LIT'') \<noteq> 0
                   then flags OR Shader_LIT else flags);
          flags = (if ToInt32 (js_get mtrl ''fl'') AND
                      ToInt32 (js_get Mtrl_static ''ALPHA_TEST'') \<noteq> 0
                   then flags OR shaderFlagsFromAlphaFunc (js_get mtrl ''alphaFunc'')
                   else flags);
          flags = (if ToInt32 (js_get mtrl ''fl'') AND
                      ToInt32 (js_get Mtrl_static ''ENVIRONMENT'') \<noteq> 0
                   then flags OR Shader_ENVIRONMENT else flags)
      in flags)"

subsection \<open>Building the shaders\<close>

text \<open>
  The shader graph library is not part of the sources: a graph is the list of the calls
  made on it. The second argument of \<^verbatim>\<open>pipe\<close> is a group of the object \<^verbatim>\<open>uniforms\<close>, given
  by the names of its uniforms; \<^verbatim>\<open>uniforms.texture\<close> names no group of that object
  (\<open>None\<close>).
\<close>

datatype graph_call =
  Pipe string
| PipeUniforms string "string list option"
| PipeGraph "graph_call list"
| Require string
| Fan
| Next
| End

record shader =
  shaderFlags :: int32
  fragmentShader :: "graph_call list"
  vertexShader :: "graph_call list"

definition uniforms_mainTexture :: "string list option" where
  "uniforms_mainTexture = Some [''Texture'']"

definition uniforms_transform :: "string list option" where
  "uniforms_transform = Some [''ModelViewMatrix'', ''ProjMatrix'', ''NormalMatrix'']"

definition uniforms_alphaTest :: "string list option" where
  "uniforms_alphaTest = Some [''AlphaRef'']"

definition uniforms_texture :: "string list option" where
  "uniforms_texture = None"

text \<open>The fragment graph, as built from the shader flags.\<close>

definition build_fragment :: "int32 \<Rightarrow> graph_call list" where
  "build_fragment flags =
     (let frag = [];
          frag = (if flags AND Shader_LIT \<noteq> 0 then
                    frag @ [Fan, Pipe ''frag.getTexCoord'',
                            PipeUniforms ''sampleTexture'' uniforms_texture,
                            Next, Pipe ''frag.getLightColor'', End, Pipe ''multiply'']
                  else
                    frag @ [Pipe ''frag.getTexCoord'',
                            PipeUniforms ''sampleTexture'' uniforms_texture]);
          frag = (if flags AND Shader_ALPHA_TEST \<noteq> 0 then
                    (case array_get alphaFuncSnippets (unat (alphaFuncFromShaderFlags flags)) of
                       Some (Some alphaFunc) \<Rightarrow>
                         frag @ [Require alphaFunc, PipeUniforms ''frag.alphaTest'' uniforms_alphaTest]
                     | _ \<Rightarrow> frag)
                  else frag);
          frag = frag @ [Pipe ''frag.setFragColor'']
      in frag)"

text \<open>The vertex graph, as built from the shader flags.\<close>

definition build_vertex :: "int32 \<Rightarrow> graph_call list" where
  "build_vertex flags =
     (let texCoordGraph =
            (if flags AND Shader_ENVIRONMENT \<noteq> 0 then
               [Pipe ''vert.getNormal'', PipeUniforms ''viewNormal'' uniforms_transform,
                Pipe ''genSphereMapCoords'', Pipe ''vert.setTexCoord'']
             else
               [Pipe ''vert.getTexCoord'', Pipe ''vert.setTexCoord''])
      in [Pipe ''vert.getPosition'', PipeUniforms ''viewVertex'' uniforms_transform, Fan,
          PipeUniforms ''projVertex'' uniforms_transform, Pipe ''vert.setPosition'', Next,
          PipeGraph texCoordGraph, End])"

definition Shader :: "(string \<times> js_value) list \<Rightarrow> shader" where
  "Shader mtrl =
     (let flags = shaderFlagsFromMtrl mtrl
      in \<lparr> shaderFlags = flags,
           fragmentShader = build_fragment flags,
           vertexShader = build_vertex flags \<rparr>)"

section \<open>Vectors and matrices (gl-matrix)\<close>

text \<open>
  A \<^verbatim>\<open>vec3\<close> and a \<^verbatim>\<open>quat\<close> are tuples of their elements; a \<^verbatim>\<open>mat4\<close> is the list
  of its sixteen elements, column by column.
\<close>

type_synonym vec3 = "real \<times> real \<times> real"
type_synonym quat = "real \<times> real \<times> real \<times> real"
type_synonym mat4 = "real list"

definition vec3_create :: vec3 where
  "vec3_create = (0, 0, 0)"

definition vec3_fromValues :: "real \<Rightarrow> real \<Rightarrow> real \<Rightarrow> vec3" where
  "vec3_fromValues x y z = (x, y, z)"

definition vec3_set :: "vec3 \<Rightarrow> real \<Rightarrow> real \<Rightarrow> real \<Rightarrow> vec3" where
  "vec3_set out x y z = (x, y, z)"

definition vec3_copy :: "vec3 \<Rightarrow> vec3 \<Rightarrow> vec3" where
  "vec3_copy out v = v"

definition quat_create :: quat where
  "quat_create = (0, 0, 0, 1)"

definition mat4_create :: mat4 where
  "mat4_create = [1, 0, 0, 0,  0, 1, 0, 0,  0, 0, 1, 0,  0, 0, 0, 1]"

text \<open>\<^verbatim>\<open>mat4.set(out, m00, ..., m33)\<close> overwrites all sixteen elements.\<close>

definition mat4_set :: "mat4 \<Rightarrow> real list \<Rightarrow> mat4" where
  "mat4_set out ms = ms"

text \<open>
  The value of the property \<^verbatim>\<open>scale\<close> of a Spatial component: the constructor stores a
  \<^verbatim>\<open>vec3\<close>, and the property is assignable, so it can also hold a plain number.
\<close>

datatype scale_value = ScaleVec3 vec3 | ScaleNumber real

text \<open>
  The gl-matrix functions that compute with their arguments are not part of the sources;
  the embedding takes them as a record of functions, each returning what the library
  writes to its \<^verbatim>\<open>out\<close> argument.
\<close>

record glMatrix =
  mat4_fromRotationTranslation :: "quat \<Rightarrow> vec3 \<Rightarrow> mat4"
  mat4_fromRotationTranslationScale :: "quat \<Rightarrow> vec3 \<Rightarrow> scale_value \<Rightarrow> mat4"
  mat4_rotateX :: "mat4 \<Rightarrow> real \<Rightarrow> mat4"
  mat4_rotateY :: "mat4 \<Rightarrow> real \<Rightarrow> mat4"
  mat4_rotateZ :: "mat4 \<Rightarrow> real \<Rightarrow> mat4"
  mat4_scale :: "mat4 \<Rightarrow> real list \<Rightarrow> mat4"
  mat4_multiply :: "mat4 \<Rightarrow> mat4 \<Rightarrow> mat4"

section \<open>Meshes\<close>

text \<open>
  A mesh refers to its material: \<open>mesh_mtrl\<close> is the address of the material in a store
  of materials, or \<^verbatim>\<open>null\<close>. \<open>verts\<close> is the vertex buffer or \<^verbatim>\<open>null\<close>, \<open>vbo\<close> the GL buffer
  once \<^verbatim>\<open>createVBO\<close> has run.
\<close>

record Mesh =
  mesh_mtrl :: "nat option"
  verts :: "real list option"
  count :: nat
  vbo :: "nat option"

definition Mesh_stride :: nat where
  "Mesh_stride = 3 + 3 + 2"

definition Mesh_new :: "nat \<Rightarrow> nat option \<Rightarrow> Mesh" where
  "Mesh_new cnt mtrl =
     \<lparr> mesh_mtrl = mtrl,
       verts = (if cnt \<noteq> 0 then Some (replicate (Mesh_stride * cnt) 0) else None),
       count = 0,
       vbo = None \<rparr>"

text \<open>A source vertex: position, normal and texture coordinate.\<close>

type_synonym vertex = "vec3 \<times> vec3 \<times> (real \<times> real)"

definition vertex_floats :: "vertex \<Rightarrow> real list" where
  "vertex_floats v =
     (case v of ((px, py, pz), (nx, ny, nz), (tu, tv)) \<Rightarrow> [px, py, pz, nx, ny, nz, tu, tv])"

text \<open>
  Element writes \<^verbatim>\<open>view[0] = v0; view[1] = v1; ...\<close> through a view that starts at \<open>pos\<close>
  of the buffer. A write outside a typed array is dropped, and so is a write past the
  end of the view, which \<^verbatim>\<open>subarray\<close> cuts at the end of the buffer.
\<close>

fun write_view :: "real list \<Rightarrow> nat \<Rightarrow> real list \<Rightarrow> real list" where
  "write_view buf pos [] = buf"
| "write_view buf pos (v # vs) = write_view (buf[pos := v]) (Suc pos) vs"

text \<open>
  Modelled from the spec: \<^verbatim>\<open>sol.getVert(vert, offs)\<close> of the level decoder, which is not
  part of the sources. The level \<open>sol\<close> is given by the source vertex it holds at each
  offset; the call writes the packed record of that vertex (3 position, 3 normal,
  2 texcoord floats) to the elements 0 to 7 of the view \<^verbatim>\<open>vert\<close>, which starts at \<open>pos\<close> of
  the buffer.
\<close>

definition getVert :: "('offs \<Rightarrow> vertex) \<Rightarrow> real list \<Rightarrow> nat \<Rightarrow> 'offs \<Rightarrow> real list" where
  "getVert sol buf pos offs = write_view buf pos (vertex_floats (sol offs))"

text \<open>
  \<^verbatim>\<open>this.verts.subarray(...)\<close> on a mesh made for no vertices is a call on \<^verbatim>\<open>null\<close>.
\<close>

definition addVertFromSol :: "('offs \<Rightarrow> vertex) \<Rightarrow> 'offs \<Rightarrow> Mesh \<Rightarrow> js_error + Mesh" where
  "addVertFromSol sol offs this =
     (let pos = count this * Mesh_stride
      in (case verts this of
            None \<Rightarrow> Inl TypeError
          | Some buf \<Rightarrow>
              Inr (this\<lparr> verts := Some (getVert sol buf pos offs),
                        count := count this + 1 \<rparr>)))"

text \<open>One call of \<^verbatim>\<open>addVertFromSol\<close> for each offset, in order, as the caller makes them.\<close>

fun addVertsFromSol :: "('offs \<Rightarrow> vertex) \<Rightarrow> 'offs list \<Rightarrow> Mesh \<Rightarrow> js_error + Mesh" where
  "addVertsFromSol sol [] this = Inr this"
| "addVertsFromSol sol (offs # rest) this =
     (case addVertFromSol sol offs this of
        Inl err \<Rightarrow> Inl err
      | Inr this' \<Rightarrow> addVertsFromSol sol rest this')"

text \<open>
  Reading vertex \<open>i\<close> back from a buffer, with the layout \<^verbatim>\<open>Mesh.prototype.draw\<close> gives to
  \<^verbatim>\<open>vertexAttribPointer\<close>: stride 8 floats, position at 0, normal at 3, texcoord at 6.
\<close>

definition vertex_at :: "real list \<Rightarrow> nat \<Rightarrow> vertex" where
  "vertex_at buf i =
     (let b = Mesh_stride * i
      in ((buf ! b, buf ! (b + 1), buf ! (b + 2)),
          (buf ! (b + 3), buf ! (b + 4), buf ! (b + 5)),
          (buf ! (b + 6), buf ! (b + 7))))"

text \<open>
  The GL context of the draw functions: the render state, the data stores of the buffers
  created so far, and the calls of \<^verbatim>\<open>drawArrays\<close>, each with the render state it ran under
  and its vertex count.
\<close>

record 'img gl_context =
  render :: "'img render_state"
  buffers :: "real list option list"
  drawArrays :: "('img render_state \<times> nat) list"

definition createVBO :: "Mesh \<Rightarrow> 'img gl_context \<Rightarrow> Mesh \<times> 'img gl_context" where
  "createVBO this gl =
     (let handle = length (buffers gl);
          gl = gl\<lparr> buffers := buffers gl @ [None] \<rparr>;
          gl = gl\<lparr> render := (render gl)\<lparr> ARRAY_BUFFER := Some handle \<rparr> \<rparr>;
          gl = gl\<lparr> buffers := (buffers gl)[handle := verts this] \<rparr>;
          gl = gl\<lparr> render := (render gl)\<lparr> ARRAY_BUFFER := None \<rparr> \<rparr>
      in (this\<lparr> vbo := Some handle \<rparr>, gl))"

text \<open>
  \<^verbatim>\<open>state.enableArray(gl, index)\<close> belongs to \<^verbatim>\<open>gl-state.js\<close>; here it enables the vertex
  attribute array of that index.
\<close>

definition enableArray :: "nat \<Rightarrow> 'img render_state \<Rightarrow> 'img render_state" where
  "enableArray index gl = gl\<lparr> enabledArrays := insert index (enabledArrays gl) \<rparr>"

definition vertexAttribPointer ::
  "nat \<Rightarrow> nat \<Rightarrow> nat \<Rightarrow> nat \<Rightarrow> 'img render_state \<Rightarrow> 'img render_state" where
  "vertexAttribPointer index sz stride offset gl =
     gl\<lparr> vertexAttribs := (vertexAttribs gl)(index := Some (ARRAY_BUFFER gl, sz, stride, offset)) \<rparr>"

definition Mesh_draw ::
  "'img GLState \<Rightarrow> (nat \<Rightarrow> 'img Mtrl) \<Rightarrow> Mesh \<Rightarrow> 'img gl_context \<Rightarrow> js_error + 'img gl_context" where
  "Mesh_draw state mtrls this gl =
     (case mesh_mtrl this of
        None \<Rightarrow> Inl TypeError
      | Some m \<Rightarrow>
          (let gl = gl\<lparr> render := Mtrl_draw state (mtrls m) (render gl) \<rparr>
           in (case vbo this of
                 None \<Rightarrow> Inr gl
               | Some b \<Rightarrow>
                   (let r = render gl;
                        r = enableArray (uPositionID state) r;
                        r = enableArray (aNormalID state) r;
                        r = enableArray (aTexCoordID state) r;
                        r = r\<lparr> ARRAY_BUFFER := Some b \<rparr>;
                        r = vertexAttribPointer (aPositionID state) 3 (Mesh_stride * 4) 0 r;
                        r = vertexAttribPointer (aNormalID state) 3 (Mesh_stride * 4) 12 r;
                        r = vertexAttribPointer (aTexCoordID state) 2 (Mesh_stride * 4) 24 r;
                        r = r\<lparr> ARRAY_BUFFER := None \<rparr>
                    in Inr (gl\<lparr> render := r, drawArrays := drawArrays gl @ [(r, count this)] \<rparr>)))))"

section \<open>The scene (solid-model.js)\<close>

subsection \<open>Entity components\<close>

record 'model Drawable =
  model :: "'model option"

definition Drawable_new :: "'model Drawable" where
  "Drawable_new = \<lparr> model = None \<rparr>"

definition ModelMatrix_new :: mat4 where
  "ModelMatrix_new = mat4_create"

record Spatial =
  position :: vec3
  orientation :: quat
  scale :: scale_value

definition Spatial_new :: Spatial where
  "Spatial_new =
     \<lparr> position = vec3_create, orientation = quat_create,
       scale = ScaleVec3 (vec3_fromValues 1 1 1) \<rparr>"

definition getTransform :: "glMatrix \<Rightarrow> Spatial \<Rightarrow> mat4" where
  "getTransform glm this =
     (let p = position this; e = orientation this; s = scale this
      in mat4_fromRotationTranslationScale glm e p s)"

text \<open>
  A mover is an object of \<^verbatim>\<open>mover.js\<close>, held by reference: the two properties are
  addresses in a store of movers, or \<^verbatim>\<open>null\<close>.
\<close>

record Movers =
  translate :: "nat option"
  rotate_mover :: "nat option"

definition Movers_new :: Movers where
  "Movers_new = \<lparr> translate = None, rotate_mover = None \<rparr>"

record Item =
  item_value :: int

definition Item_new :: Item where
  "Item_new = \<lparr> item_value = 0 \<rparr>"

record 'mrec Billboard =
  bill_mtrl :: "'mrec option"
  bill_t :: real
  bill_w :: vec3
  bill_h :: vec3
  bill_rx :: vec3
  bill_ry :: vec3
  bill_rz :: vec3
  bill_flags :: int

definition Billboard_new :: "'mrec Billboard" where
  "Billboard_new =
     \<lparr> bill_mtrl = None, bill_t = 1.0, bill_w = vec3_create, bill_h = vec3_create,
       bill_rx = vec3_create, bill_ry = vec3_create, bill_rz = vec3_create, bill_flags = 0 \<rparr>"

subsection \<open>The decoded level\<close>

text \<open>
  The arrays of the decoded level that \<^verbatim>\<open>fromSol\<close> reads. Material and body records
  are handed on unread, so their types are parameters.
\<close>

record solItem =
  solItem_p :: vec3
  solItem_t :: int
  solItem_n :: int

record solBall =
  solBall_p :: vec3
  solBall_r :: real

record solBill =
  solBill_mi :: nat
  solBill_t :: real
  solBill_w :: vec3
  solBill_h :: vec3
  solBill_rx :: vec3
  solBill_ry :: vec3
  solBill_rz :: vec3
  solBill_fl :: int
  solBill_p :: vec3

record ('mrec, 'body) sol =
  mv :: "'mrec list"
  bv :: "'body list"
  hv :: "solItem list"
  uv :: "solBall list"
  rv :: "solBill list"

definition fromSolBill :: "('mrec, 'body) sol \<Rightarrow> solBill \<Rightarrow> 'mrec Billboard \<Rightarrow> 'mrec Billboard" where
  "fromSolBill sol solBill this =
     this\<lparr> bill_mtrl := array_get (mv sol) (solBill_mi solBill),
           bill_t := solBill_t solBill,
           bill_w := vec3_copy (bill_w this) (solBill_w solBill),
           bill_h := vec3_copy (bill_h this) (solBill_h solBill),
           bill_rx := vec3_copy (bill_rx this) (solBill_rx solBill),
           bill_ry := vec3_copy (bill_ry this) (solBill_ry solBill),
           bill_rz := vec3_copy (bill_rz this) (solBill_rz solBill),
           bill_flags := solBill_fl solBill \<rparr>"

subsection \<open>Entities\<close>

text \<open>
  An entity of the store: its tags, and one optional slot for each component type
  (\<open>None\<close>: the component was never added).
\<close>

record ('model, 'mrec) entity =
  tags :: "string list"
  drawable :: "'model Drawable option"
  modelMatrix :: "mat4 option"
  spatial :: "Spatial option"
  movers :: "Movers option"
  item :: "Item option"
  billboard :: "'mrec Billboard option"

definition createEntity :: "('model, 'mrec) entity" where
  "createEntity =
     \<lparr> tags = [], drawable = None, modelMatrix = None, spatial = None, movers = None,
       item = None, billboard = None \<rparr>"

definition addTag :: "string \<Rightarrow> ('model, 'mrec) entity \<Rightarrow> ('model, 'mrec) entity" where
  "addTag tg ent = ent\<lparr> tags := tags ent @ [tg] \<rparr>"

record ('img, 'model, 'mrec) SolidModel =
  entities :: "('model, 'mrec) entity list"
  models :: "'model list"
  materials :: "'img Mtrl list"
  transparentDepthTest :: bool
  transparentDepthMask :: bool

definition SolidModel_new :: "('img, 'model, 'mrec) SolidModel" where
  "SolidModel_new =
     \<lparr> entities = [], models = [], materials = [],
       transparentDepthTest = True, transparentDepthMask = False \<rparr>"

subsection \<open>Load entities from SOL\<close>

text \<open>
  \<^verbatim>\<open>BodyModel.fromSolBody\<close> and \<^verbatim>\<open>Mover.fromSolBody\<close> are not part of the sources: they
  are parameters of the embedding.
\<close>

record ('mrec, 'body, 'model) collaborators =
  BodyModel_fromSolBody :: "('mrec, 'body) sol \<Rightarrow> 'body \<Rightarrow> 'model"
  Mover_fromSolBody :: "('mrec, 'body) sol \<Rightarrow> 'body \<Rightarrow> Movers"

text \<open>The loop over \<^verbatim>\<open>sol.mv\<close>: one material for each record, in order.\<close>

definition fromSol_materials :: "('mrec, 'body) sol \<Rightarrow> 'img Mtrl list" where
  "fromSol_materials sol = map Mtrl_new (mv sol)"

text \<open>The body of the loop over \<^verbatim>\<open>sol.bv\<close>.\<close>

definition fromSol_body ::
  "('mrec, 'body, 'model) collaborators \<Rightarrow> ('mrec, 'body) sol \<Rightarrow> 'body
     \<Rightarrow> ('model, 'mrec) entity" where
  "fromSol_body c sol solBody =
     (let ent = addTag ''body'' createEntity;
          ent = ent\<lparr> drawable := Some Drawable_new \<rparr>;
          ent = ent\<lparr> modelMatrix := Some ModelMatrix_new \<rparr>;
          ent = ent\<lparr> spatial := Some Spatial_new \<rparr>;
          ent = ent\<lparr> movers := Some Movers_new \<rparr>;
          m = BodyModel_fromSolBody c sol solBody;
          ent = ent\<lparr> drawable := map_option (\<lambda>dr. dr\<lparr> model := Some m \<rparr>) (drawable ent) \<rparr>;
          ms = Mover_fromSolBody c sol solBody;
          ent = ent\<lparr> movers := map_option (\<lambda>mo. mo\<lparr> translate := translate ms \<rparr>) (movers ent) \<rparr>;
          ent = ent\<lparr> movers := map_option (\<lambda>mo. mo\<lparr> rotate_mover := rotate_mover ms \<rparr>) (movers ent) \<rparr>
      in ent)"

text \<open>
  \<^verbatim>\<open>itemTags[solItem.t]\<close> with \<^verbatim>\<open>itemTags = [null, 'coin', 'grow', 'shrink']\<close>: \<open>None\<close>
  where the entry is \<^verbatim>\<open>null\<close> or the index is outside the array.
\<close>

definition itemTags :: "int \<Rightarrow> string option" where
  "itemTags t =
     (if t = 1 then Some ''coin'' else if t = 2 then Some ''grow''
      else if t = 3 then Some ''shrink'' else None)"

text \<open>The body of the loop over \<^verbatim>\<open>sol.hv\<close>; \<open>None\<close> is the \<^verbatim>\<open>continue\<close>.\<close>

definition fromSol_item :: "solItem \<Rightarrow> ('model, 'mrec) entity option" where
  "fromSol_item solItem =
     (case itemTags (solItem_t solItem) of
        None \<Rightarrow> None
      | Some tg \<Rightarrow>
          (let ent = addTag tg (addTag ''item'' createEntity);
               ent = ent\<lparr> item := Some Item_new \<rparr>;
               ent = ent\<lparr> spatial := Some Spatial_new \<rparr>;
               ent = ent\<lparr> modelMatrix := Some ModelMatrix_new \<rparr>;
               ent = ent\<lparr> item := map_option (\<lambda>it. it\<lparr> item_value := solItem_n solItem \<rparr>) (item ent) \<rparr>;
               r = 0.15;
               x = fst (solItem_p solItem);
               y = fst (snd (solItem_p solItem));
               z = snd (snd (solItem_p solItem));
               ent = ent\<lparr> spatial := map_option
                       (\<lambda>sp. sp\<lparr> scale := (case scale sp of
                                     ScaleVec3 v \<Rightarrow> ScaleVec3 (vec3_set v r r r)
                                   | ScaleNumber k \<Rightarrow> ScaleNumber k) \<rparr>) (spatial ent) \<rparr>;
               ent = ent\<lparr> spatial := map_option
                       (\<lambda>sp. sp\<lparr> position := vec3_set (position sp) x y z \<rparr>) (spatial ent) \<rparr>;
               ent = ent\<lparr> modelMatrix := map_option
                       (\<lambda>M. mat4_set M [r, 0, 0, 0,  0, r, 0, 0,  0, 0, r, 0,  x, y, z, 1])
                       (modelMatrix ent) \<rparr>
           in Some ent))"

text \<open>The body of the loop over \<^verbatim>\<open>sol.uv\<close>.\<close>

definition fromSol_ball :: "solBall \<Rightarrow> ('model, 'mrec) entity" where
  "fromSol_ball solBall =
     (let ent = addTag ''ball'' createEntity;
          ent = ent\<lparr> spatial := Some Spatial_new \<rparr>;
          ent = ent\<lparr> modelMatrix := Some ModelMatrix_new \<rparr>;
          r = solBall_r solBall;
          x = fst (solBall_p solBall);
          y = fst (snd (solBall_p solBall));
          z = snd (snd (solBall_p solBall));
          ent = ent\<lparr> spatial := map_option (\<lambda>sp. sp\<lparr> scale := ScaleNumber r \<rparr>) (spatial ent) \<rparr>;
          ent = ent\<lparr> spatial := map_option
                  (\<lambda>sp. sp\<lparr> position := vec3_set (position sp) x y z \<rparr>) (spatial ent) \<rparr>;
          ent = ent\<lparr> modelMatrix := map_option
                  (\<lambda>M. mat4_set M [r, 0, 0, 0,  0, r, 0, 0,  0, 0, r, 0,  x, y, z, 1])
                  (modelMatrix ent) \<rparr>
      in ent)"

text \<open>The body of the loop over \<^verbatim>\<open>sol.rv\<close>.\<close>

definition fromSol_bill ::
  "glMatrix \<Rightarrow> ('mrec, 'body) sol \<Rightarrow> solBill \<Rightarrow> ('model, 'mrec) entity" where
  "fromSol_bill glm sol solBill =
     (let ent = addTag ''billboard'' createEntity;
          ent = ent\<lparr> modelMatrix := Some ModelMatrix_new \<rparr>;
          ent = ent\<lparr> spatial := Some Spatial_new \<rparr>;
          ent = ent\<lparr> billboard := Some Billboard_new \<rparr>;
          ent = ent\<lparr> spatial := map_option
                  (\<lambda>sp. sp\<lparr> position := vec3_copy (position sp) (solBill_p solBill) \<rparr>)
                  (spatial ent) \<rparr>;
          ent = ent\<lparr> modelMatrix :=
                  (case spatial ent of None \<Rightarrow> modelMatrix ent
                   | Some sp \<Rightarrow> Some (getTransform glm sp)) \<rparr>;
          ent = ent\<lparr> billboard := map_option (fromSolBill sol solBill) (billboard ent) \<rparr>
      in ent)"

definition fromSol ::
  "glMatrix \<Rightarrow> ('mrec, 'body, 'model) collaborators \<Rightarrow> ('mrec, 'body) sol
     \<Rightarrow> ('img, 'model, 'mrec) SolidModel" where
  "fromSol glm c sol =
     SolidModel_new
       \<lparr> entities :=
           map (fromSol_body c sol) (bv sol) @
           List.map_filter fromSol_item (hv sol) @
           map fromSol_ball (uv sol) @
           map (fromSol_bill glm sol) (rv sol),
         models := map (BodyModel_fromSolBody c sol) (bv sol),
         materials := fromSol_materials sol \<rparr>"

subsection \<open>Stepping the movers\<close>

text \<open>
  The class \<^verbatim>\<open>Mover\<close> is not part of the sources. The embedding takes its three methods
  as functions on the state \<open>'m\<close> of a mover object: \<open>mover_step dt\<close> is the effect of
  \<^verbatim>\<open>step(dt)\<close> on the object, and the two getters return what they write to their
  argument. The mover objects live in a store, a function from addresses to states.
\<close>

record 'm Mover =
  mover_step :: "real \<Rightarrow> 'm \<Rightarrow> 'm"
  getPosition :: "'m \<Rightarrow> vec3"
  getOrientation :: "'m \<Rightarrow> quat"

text \<open>
  \<^verbatim>\<open>ref.step(dt)\<close> on a reference: a \<^verbatim>\<open>TypeError\<close> when the reference is \<^verbatim>\<open>null\<close>,
  else the object behind it is advanced in place.
\<close>

definition call_step ::
  "'m Mover \<Rightarrow> real \<Rightarrow> nat option \<Rightarrow> (nat \<Rightarrow> 'm) \<Rightarrow> js_error + (nat \<Rightarrow> 'm)" where
  "call_step M dt ref store =
     (case ref of
        None \<Rightarrow> Inl TypeError
      | Some a \<Rightarrow> Inr (store(a := mover_step M dt (store a))))"

text \<open>
  The body of the loop of \<^verbatim>\<open>SolidModel.prototype.step\<close>, for an entity that carries the
  three components of the query. An exception leaves the loop and the function: the
  embedding returns the error alone.
\<close>

definition step_entity ::
  "'m Mover \<Rightarrow> glMatrix \<Rightarrow> real \<Rightarrow> ('model, 'mrec) entity \<Rightarrow> (nat \<Rightarrow> 'm)
     \<Rightarrow> js_error + (('model, 'mrec) entity \<times> (nat \<Rightarrow> 'm))" where
  "step_entity M glm dt ent store =
     (case (movers ent, spatial ent) of
        (Some mo, Some sp) \<Rightarrow>
          (let moverTranslate = translate mo;
               moverRotate = rotate_mover mo;
               stepped =
                 (if moverTranslate = moverRotate then call_step M dt moverTranslate store
                  else (case call_step M dt moverTranslate store of
                          Inl err \<Rightarrow> Inl err
                        | Inr store1 \<Rightarrow> call_step M dt moverRotate store1))
           in (case (stepped, moverTranslate, moverRotate) of
                 (Inr store2, Some t, Some r) \<Rightarrow>
                   (let p = getPosition M (store2 t);
                        e = getOrientation M (store2 r)
                    in Inr (ent\<lparr> spatial := Some (sp\<lparr> position := p, orientation := e \<rparr>),
                                 modelMatrix := Some (mat4_fromRotationTranslation glm e p) \<rparr>,
                            store2))
               | _ \<Rightarrow> Inl TypeError))
      | _ \<Rightarrow> Inl TypeError)"

text \<open>\<^verbatim>\<open>queryComponents([Spatial, ModelMatrix, Movers])\<close> selects these entities.\<close>

definition has_Spatial_ModelMatrix_Movers :: "('model, 'mrec) entity \<Rightarrow> bool" where
  "has_Spatial_ModelMatrix_Movers ent =
     (spatial ent \<noteq> None \<and> modelMatrix ent \<noteq> None \<and> movers ent \<noteq> None)"

text \<open>The loop over the entities of the store; the others are left as they are.\<close>

fun step_entities ::
  "'m Mover \<Rightarrow> glMatrix \<Rightarrow> real \<Rightarrow> ('model, 'mrec) entity list \<Rightarrow> (nat \<Rightarrow> 'm)
     \<Rightarrow> js_error + (('model, 'mrec) entity list \<times> (nat \<Rightarrow> 'm))" where
  "step_entities M glm dt [] store = Inr ([], store)"
| "step_entities M glm dt (ent # ents) store =
     (if has_Spatial_ModelMatrix_Movers ent then
        (case step_entity M glm dt ent store of
           Inl err \<Rightarrow> Inl err
         | Inr (ent', store1) \<Rightarrow>
             (case step_entities M glm dt ents store1 of
                Inl err \<Rightarrow> Inl err
              | Inr (ents', store2) \<Rightarrow> Inr (ent' # ents', store2)))
      else
        (case step_entities M glm dt ents store of
           Inl err \<Rightarrow> Inl err
         | Inr (ents', store2) \<Rightarrow> Inr (ent # ents', store2)))"

definition SolidModel_step ::
  "'m Mover \<Rightarrow> glMatrix \<Rightarrow> real \<Rightarrow> ('img, 'model, 'mrec) SolidModel \<Rightarrow> (nat \<Rightarrow> 'm)
     \<Rightarrow> js_error + (('img, 'model, 'mrec) SolidModel \<times> (nat \<Rightarrow> 'm))" where
  "SolidModel_step M glm dt this store =
     (case step_entities M glm dt (entities this) store of
        Inl err \<Rightarrow> Inl err
      | Inr (ents, store') \<Rightarrow> Inr (this\<lparr> entities := ents \<rparr>, store'))"

text \<open>The mover addresses an entity of the query refers to.\<close>

definition mover_refs :: "('model, 'mrec) entity \<Rightarrow> nat set" where
  "mover_refs ent =
     (case movers ent of
        None \<Rightarrow> {}
      | Some mo \<Rightarrow>
          if has_Spatial_ModelMatrix_Movers ent
          then set_option (translate mo) \<union> set_option (rotate_mover mo) else {})"

text \<open>An entity of the query whose two mover references are not \<^verbatim>\<open>null\<close>.\<close>

definition movers_set :: "('model, 'mrec) entity \<Rightarrow> bool" where
  "movers_set ent =
     (case movers ent of
        None \<Rightarrow> True
      | Some mo \<Rightarrow>
          if has_Spatial_ModelMatrix_Movers ent
          then translate mo \<noteq> None \<and> rotate_mover mo \<noteq> None else True)"

subsection \<open>Drawing the bodies\<close>

text \<open>
  The part of the GL context the draw functions of the scene act on: the depth test, the
  depth mask, and a log. The log holds the GL calls, and with them the calls of
  \<^verbatim>\<open>drawMeshType\<close> (each with the depth state it starts under) and the calls of
  \<^verbatim>\<open>model.drawMeshType\<close> of the body model, which is not part of the sources.
\<close>

datatype 'model gl_call =
  Disable_DEPTH_TEST
| Enable_DEPTH_TEST
| DepthMask bool
| UniformMatrix4fv mat4
| DrawMeshType string bool bool
| Model_drawMeshType 'model string

record 'model gl_depth =
  depth_test :: bool
  depth_mask :: bool
  calls :: "'model gl_call list"

definition gl_disable_DEPTH_TEST :: "'model gl_depth \<Rightarrow> 'model gl_depth" where
  "gl_disable_DEPTH_TEST gl = gl\<lparr> depth_test := False, calls := calls gl @ [Disable_DEPTH_TEST] \<rparr>"

definition gl_enable_DEPTH_TEST :: "'model gl_depth \<Rightarrow> 'model gl_depth" where
  "gl_enable_DEPTH_TEST gl = gl\<lparr> depth_test := True, calls := calls gl @ [Enable_DEPTH_TEST] \<rparr>"

definition gl_depthMask :: "bool \<Rightarrow> 'model gl_depth \<Rightarrow> 'model gl_depth" where
  "gl_depthMask flag gl = gl\<lparr> depth_mask := flag, calls := calls gl @ [DepthMask flag] \<rparr>"

definition gl_uniformMatrix4fv :: "mat4 \<Rightarrow> 'model gl_depth \<Rightarrow> 'model gl_depth" where
  "gl_uniformMatrix4fv M gl = gl\<lparr> calls := calls gl @ [UniformMatrix4fv M] \<rparr>"

text \<open>
  The loop of \<^verbatim>\<open>drawMeshType\<close> over the entities of the query
  \<^verbatim>\<open>queryComponents([Drawable, ModelMatrix])\<close>, those that carry both components; the
  others are passed over. The call \<^verbatim>\<open>model.drawMeshType(...)\<close> on a drawable whose model
  is still \<^verbatim>\<open>null\<close> throws; the exception leaves the loop and every caller.
\<close>

fun drawMeshType_loop ::
  "glMatrix \<Rightarrow> string \<Rightarrow> mat4 option \<Rightarrow> ('model, 'mrec) entity list \<Rightarrow> 'model gl_depth
     \<Rightarrow> js_error + 'model gl_depth" where
  "drawMeshType_loop glm meshType parentMatrix [] gl = Inr gl"
| "drawMeshType_loop glm meshType parentMatrix (ent # ents) gl =
     (case (drawable ent, modelMatrix ent) of
        (Some dr, Some M) \<Rightarrow>
          (let gl = (case parentMatrix of
                       Some P \<Rightarrow> gl_uniformMatrix4fv (mat4_multiply glm P M) gl
                     | None \<Rightarrow> gl_uniformMatrix4fv M gl)
           in (case model dr of
                 None \<Rightarrow> Inl TypeError
               | Some mdl \<Rightarrow>
                   drawMeshType_loop glm meshType parentMatrix ents
                     (gl\<lparr> calls := calls gl @ [Model_drawMeshType mdl meshType] \<rparr>)))
      | _ \<Rightarrow> drawMeshType_loop glm meshType parentMatrix ents gl)"

definition drawMeshType ::
  "glMatrix \<Rightarrow> ('img, 'model, 'mrec) SolidModel \<Rightarrow> string \<Rightarrow> mat4 option \<Rightarrow> 'model gl_depth
     \<Rightarrow> js_error + 'model gl_depth" where
  "drawMeshType glm this meshType parentMatrix gl =
     drawMeshType_loop glm meshType parentMatrix (entities this)
       (gl\<lparr> calls := calls gl @ [DrawMeshType meshType (depth_test gl) (depth_mask gl)] \<rparr>)"

text \<open>Statement after statement: an exception skips the statements that follow.\<close>

definition and_then :: "js_error + 'a \<Rightarrow> ('a \<Rightarrow> js_error + 'b) \<Rightarrow> js_error + 'b" where
  "and_then r k = (case r of Inl err \<Rightarrow> Inl err | Inr x \<Rightarrow> k x)"

definition drawBodies ::
  "glMatrix \<Rightarrow> ('img, 'model, 'mrec) SolidModel \<Rightarrow> mat4 option \<Rightarrow> 'model gl_depth
     \<Rightarrow> js_error + 'model gl_depth" where
  "drawBodies glm this parentMatrix gl =
     (let mask = transparentDepthMask this;
          test = transparentDepthTest this
      in and_then (drawMeshType glm this ''reflective'' parentMatrix gl) (\<lambda>gl.
         and_then (drawMeshType glm this ''opaque'' parentMatrix gl) (\<lambda>gl.
         and_then (drawMeshType glm this ''opaqueDecal'' parentMatrix gl) (\<lambda>gl.
         let gl = (if \<not> test then gl_disable_DEPTH_TEST gl else gl);
             gl = (if \<not> mask then gl_depthMask False gl else gl)
         in and_then (drawMeshType glm this ''transparentDecal'' parentMatrix gl) (\<lambda>gl.
            and_then (drawMeshType glm this ''transparent'' parentMatrix gl) (\<lambda>gl.
            let gl = (if \<not> mask then gl_depthMask True gl else gl);
                gl = (if \<not> test then gl_enable_DEPTH_TEST gl else gl)
            in Inr gl))))))"

subsection \<open>Billboards\<close>

text \<open>
  \<^verbatim>\<open>if (rx)\<close> holds for every number but zero (and NaN, which a \<open>real\<close> never is).
\<close>

definition getForegroundTransform ::
  "glMatrix \<Rightarrow> 'mrec Billboard \<Rightarrow> mat4 \<Rightarrow> real \<Rightarrow> mat4" where
  "getForegroundTransform glm this M globalTime =
     (let T = bill_t this * globalTime;
          S = sin T;
          w = fst (bill_w this) + fst (snd (bill_w this)) * T + snd (snd (bill_w this)) * S;
          h = fst (bill_h this) + fst (snd (bill_h this)) * T + snd (snd (bill_h this)) * S;
          rx = fst (bill_rx this) + fst (snd (bill_rx this)) * T + snd (snd (bill_rx this)) * S;
          ry = fst (bill_ry this) + fst (snd (bill_ry this)) * T + snd (snd (bill_ry this)) * S;
          rz = fst (bill_rz this) + fst (snd (bill_rz this)) * T + snd (snd (bill_rz this)) * S;
          M = (if rx \<noteq> 0 then mat4_rotateX glm M (rx / 180.0 * pi) else M);
          M = (if ry \<noteq> 0 then mat4_rotateY glm M (ry / 180.0 * pi) else M);
          M = (if rz \<noteq> 0 then mat4_rotateZ glm M (rz / 180.0 * pi) else M);
          M = mat4_scale glm M [w, h, 0.0]
      in M)"

section \<open>Notions of the specification\<close>

text \<open>
  The definitions of this section do not embed code: they give names to what the
  properties below say about it.
\<close>

subsection \<open>Billboards\<close>

text \<open>
  The specification's words for the billboard transform: a coefficient triple
  \<open>(c0, c1, c2)\<close> evaluates to \<open>c0 + c1 T + c2 sin T\<close>, and a rotation by an angle in
  degrees is skipped when the angle is exactly zero.
\<close>

definition spec_evaluate :: "vec3 \<Rightarrow> real \<Rightarrow> real" where
  "spec_evaluate c T = fst c + fst (snd c) * T + snd (snd c) * sin T"

definition spec_rotate :: "(mat4 \<Rightarrow> real \<Rightarrow> mat4) \<Rightarrow> real \<Rightarrow> mat4 \<Rightarrow> mat4" where
  "spec_rotate rot deg M = (if deg = 0 then M else rot M (deg / 180 * pi))"

subsection \<open>Alpha test\<close>

text \<open>
  The specification's words for the alpha test: the selector values 1 to 7 select the
  snippets equal, greater-or-equal, greater, less-or-equal, less, never and not-equal, and
  the value 0 selects none.
\<close>

definition spec_alpha_snippet :: "nat \<Rightarrow> string option" where
  "spec_alpha_snippet k =
     (if k = 1 then Some ''testEqual''
      else if k = 2 then Some ''testGequal''
      else if k = 3 then Some ''testGreater''
      else if k = 4 then Some ''testLequal''
      else if k = 5 then Some ''testLess''
      else if k = 6 then Some ''testNever''
      else if k = 7 then Some ''testNotEqual''
      else None)"

subsection \<open>Items and balls\<close>

text \<open>
  The specification's words for the matrix of items and balls: a uniform scale by \<open>r\<close>,
  then a translation to \<open>p\<close>, as a column-major matrix.
\<close>

definition spec_scale_translate :: "real \<Rightarrow> vec3 \<Rightarrow> mat4" where
  "spec_scale_translate r p =
     (case p of (x, y, z) \<Rightarrow> [r, 0, 0, 0,  0, r, 0, 0,  0, 0, r, 0,  x, y, z, 1])"

text \<open>\<^verbatim>\<open>ent.hasTag(tg)\<close> of the entity store.\<close>

definition has_tag :: "string \<Rightarrow> ('model, 'mrec) entity \<Rightarrow> bool" where
  "has_tag tg ent = (tg \<in> set (tags ent))"

subsection \<open>Draw passes\<close>

text \<open>The mesh types of the passes among the calls of a log, in the order of the calls.\<close>

fun passes :: "'model gl_call list \<Rightarrow> string list" where
  "passes [] = []"
| "passes (DrawMeshType meshType t m # cs) = meshType # passes cs"
| "passes (c # cs) = passes cs"

text \<open>
  The calls of one pass over the entities: for each drawable entity its matrix, under the
  parent matrix if there is one, and the call of its model.
\<close>

fun entity_calls ::
  "glMatrix \<Rightarrow> string \<Rightarrow> mat4 option \<Rightarrow> ('model, 'mrec) entity list \<Rightarrow> 'model gl_call list" where
  "entity_calls glm meshType parentMatrix [] = []"
| "entity_calls glm meshType parentMatrix (ent # ents) =
     (case (drawable ent, modelMatrix ent) of
        (Some dr, Some M) \<Rightarrow>
          UniformMatrix4fv (case parentMatrix of Some P \<Rightarrow> mat4_multiply glm P M | None \<Rightarrow> M) #
          (case model dr of Some mdl \<Rightarrow> [Model_drawMeshType mdl meshType] | None \<Rightarrow> []) @
          entity_calls glm meshType parentMatrix ents
      | _ \<Rightarrow> entity_calls glm meshType parentMatrix ents)"

definition pass_calls ::
  "glMatrix \<Rightarrow> ('img, 'model, 'mrec) SolidModel \<Rightarrow> mat4 option \<Rightarrow> string \<Rightarrow> bool \<Rightarrow> bool
     \<Rightarrow> 'model gl_call list" where
  "pass_calls glm this parentMatrix meshType t m =
     DrawMeshType meshType t m # entity_calls glm meshType parentMatrix (entities this)"

text \<open>An entity whose drawable, if it has one, has its model.\<close>

definition model_set :: "('model, 'mrec) entity \<Rightarrow> bool" where
  "model_set ent = (case drawable ent of None \<Rightarrow> True | Some dr \<Rightarrow> model dr \<noteq> None)"

subsection \<open>Draw calls\<close>

text \<open>The calls of \<^verbatim>\<open>drawArrays\<close> made between two states of the GL context.\<close>

definition new_draws :: "'img gl_context \<Rightarrow> 'img gl_context \<Rightarrow> ('img render_state \<times> nat) list" where
  "new_draws before after = drop (length (drawArrays before)) (drawArrays after)"

subsection \<open>Stepping\<close>

text \<open>
  The store after the movers at the addresses \<open>t\<close> and \<open>r\<close> have each been advanced once:
  one step for a shared address, not two.
\<close>

definition step_once :: "'m Mover \<Rightarrow> real \<Rightarrow> nat \<Rightarrow> nat \<Rightarrow> (nat \<Rightarrow> 'm) \<Rightarrow> (nat \<Rightarrow> 'm)" where
  "step_once M dt t r store =
     (\<lambda>a. if a = t \<or> a = r then mover_step M dt (store a) else store a)"

section \<open>Example inputs\<close>

text \<open>A material with the decal and transparent flags set, and nothing else.\<close>

definition example_mtrl :: "unit Mtrl" where
  "example_mtrl = (Mtrl_new ())\<lparr> mtrl_fl := Mtrl_DECAL OR Mtrl_TRANSPARENT \<rparr>"

text \<open>Stand-ins for the gl-matrix functions and for the two absent constructors.\<close>

definition example_glm :: glMatrix where
  "example_glm =
     \<lparr> mat4_fromRotationTranslation = (\<lambda>e p. mat4_create),
       mat4_fromRotationTranslationScale = (\<lambda>e p s. mat4_create),
       mat4_rotateX = (\<lambda>M rad. M @ [1, rad]),
       mat4_rotateY = (\<lambda>M rad. M @ [2, rad]),
       mat4_rotateZ = (\<lambda>M rad. M @ [3, rad]),
       mat4_scale = (\<lambda>M v. M @ 4 # v),
       mat4_multiply = (\<lambda>A B. A) \<rparr>"

definition example_collaborators :: "(string, nat, nat) collaborators" where
  "example_collaborators =
     \<lparr> BodyModel_fromSolBody = (\<lambda>sol solBody. solBody),
       Mover_fromSolBody = (\<lambda>sol solBody.
         \<lparr> translate = Some (2 * solBody),
           rotate_mover = Some (2 * solBody + solBody mod 2) \<rparr>) \<rparr>"

text \<open>A level with two material records, one ball, and nothing else.\<close>

definition example_sol :: "(string, nat) sol" where
  "example_sol =
     \<lparr> mv = [''mtrl/arrow-green'', ''mtrl/glass''], bv = [], hv = [],
       uv = [\<lparr> solBall_p = (1, 2, 3), solBall_r = 1 / 4 \<rparr>], rv = [] \<rparr>"

text \<open>A GL context with depth test and depth writes on, and no calls yet.\<close>

definition example_gl :: "nat gl_depth" where
  "example_gl = \<lparr> depth_test = True, depth_mask = True, calls = [] \<rparr>"

text \<open>A scene of one body, configured to draw transparent meshes without depth test.\<close>

definition example_model :: "(unit, nat, string) SolidModel" where
  "example_model =
     (fromSol example_glm example_collaborators
        \<lparr> mv = [], bv = [7], hv = [], uv = [], rv = [] \<rparr>)\<lparr> transparentDepthTest := False \<rparr>"

text \<open>A billboard whose x rotation has a constant term of 90 degrees.\<close>

definition example_bill :: "string Billboard" where
  "example_bill =
     Billboard_new\<lparr> bill_t := 2, bill_w := (2, 1, 1), bill_h := (3, 1, 0),
                    bill_rx := (90, 5, 5), bill_ry := (0, 1, 1), bill_rz := (0, 0, 0) \<rparr>"

text \<open>An image table with one entry, a material of that name, and an empty environment.\<close>

definition example_images :: "string \<Rightarrow> string option" where
  "example_images name = (if name = ''mtrl/glass'' then Some ''textures/mtrl/glass.png'' else None)"

definition example_glass :: "nat Mtrl" where
  "example_glass = (Mtrl_new ())\<lparr> mtrl_f := ''mtrl/glass'', mtrl_fl := Mtrl_CLAMP_S \<rparr>"

definition example_env :: js_env where
  "example_env = \<lparr> fetches = [], console = [] \<rparr>"

text \<open>
  A decoded material with the alpha test and environment flags set (\<open>512 + 16\<close>) and the
  alpha function \<open>k\<close>.
\<close>

definition example_sol_mtrl :: "nat \<Rightarrow> (string \<times> js_value) list" where
  "example_sol_mtrl k =
     [(''fl'', JS_number 528), (''f'', JS_other), (''alphaFunc'', JS_number (real k)),
      (''alphaRef'', JS_number (1 / 2))]"

text \<open>A source of vertices indexed by natural numbers.\<close>

definition example_getVert :: "nat \<Rightarrow> vertex" where
  "example_getVert k = ((real k, real k + 1, real k + 2), (0, 0, 1), (real k / 2, 1))"

text \<open>
  The GL objects of a small draw: a default texture, one untextured material, and a
  three-vertex mesh with and without its uploaded buffer.
\<close>

definition example_texture :: "unit texture" where
  "example_texture =
     \<lparr> wrap_s = REPEAT, wrap_t = REPEAT, mag_filter = LINEAR,
       min_filter = LINEAR_MIPMAP_LINEAR, image = (), mipmap = True \<rparr>"

definition example_state :: "unit GLState" where
  "example_state =
     \<lparr> enableTextures = True, defaultTexture = Some example_texture,
       uPositionID = 0, aPositionID = 0, aNormalID = 1, aTexCoordID = 2 \<rparr>"

definition example_render :: "unit render_state" where
  "example_render =
     \<lparr> TEXTURE_2D = None, uDiffuse = [], uAmbient = [], uSpecular = [], uEmissive = [],
       uShininess = None, uEnvironment = 0, blendFunc = (ONE, ONE), CULL_FACE = False,
       POLYGON_OFFSET_FILL = False, polygonOffset = (0, 0), ARRAY_BUFFER = None,
       enabledArrays = {}, vertexAttribs = (\<lambda>index. None) \<rparr>"

definition example_context :: "unit gl_context" where
  "example_context = \<lparr> render = example_render, buffers = [], drawArrays = [] \<rparr>"

definition example_mtrls :: "nat \<Rightarrow> unit Mtrl" where
  "example_mtrls m = Mtrl_new ()"

definition example_mesh :: Mesh where
  "example_mesh = fst (createVBO ((Mesh_new 3 (Some 0))\<lparr> count := 3 \<rparr>) example_context)"

definition example_mesh_context :: "unit gl_context" where
  "example_mesh_context = snd (createVBO ((Mesh_new 3 (Some 0))\<lparr> count := 3 \<rparr>) example_context)"

definition example_bare_mesh :: Mesh where
  "example_bare_mesh = (Mesh_new 3 (Some 0))\<lparr> count := 3 \<rparr>"

text \<open>
  A mover that counts its steps, and a scene of two bodies: body 0 is driven by one mover
  (address 0) for both translation and rotation, body 1 by two movers (addresses 2, 3).
\<close>

definition example_counter :: "nat Mover" where
  "example_counter =
     \<lparr> mover_step = (\<lambda>dt steps. steps + 1),
       getPosition = (\<lambda>steps. (0, 0, 0)),
       getOrientation = (\<lambda>steps. (0, 0, 0, 1)) \<rparr>"

definition example_scene :: "(unit, nat, string) SolidModel" where
  "example_scene =
     fromSol example_glm example_collaborators \<lparr> mv = [], bv = [0, 1], hv = [], uv = [], rv = [] \<rparr>"

definition example_body :: "nat \<Rightarrow> (nat, string) entity" where
  "example_body b =
     fromSol_body example_collaborators \<lparr> mv = [], bv = [0, 1], hv = [], uv = [], rv = [] \<rparr> b"

chapter \<open>Properties\<close>

section \<open>Bit masks\<close>

lemma and_mask_eq_iff: "(w AND m = m) = (\<forall>n. bit m n \<longrightarrow> bit w n)" for w m :: int32
proof
  assume "w AND m = m"
  then have "bit (w AND m) n = bit m n" for n by simp
  then show "\<forall>n. bit m n \<longrightarrow> bit w n" by (simp add: bit_and_iff) blast
next
  assume a: "\<forall>n. bit m n \<longrightarrow> bit w n"
  show "w AND m = m" by (rule bit_eqI) (use a in \<open>auto simp add: bit_and_iff\<close>)
qed

lemma and_mask_zero_iff: "(w AND m = 0) = (\<forall>n. bit m n \<longrightarrow> \<not> bit w n)" for w m :: int32
proof
  assume "w AND m = 0"
  then have "bit (w AND m) n = bit (0::int32) n" for n by simp
  then show "\<forall>n. bit m n \<longrightarrow> \<not> bit w n" by (simp add: bit_and_iff) blast
next
  assume a: "\<forall>n. bit m n \<longrightarrow> \<not> bit w n"
  show "w AND m = 0" by (rule bit_eqI) (use a in \<open>auto simp add: bit_and_iff\<close>)
qed

lemma bit_shl1: "k < 32 \<Longrightarrow> bit (push_bit k 1 :: int32) n = (n = k)"
  by (auto simp add: bit_exp_iff)

lemma test_bits:
  "test this r =
     ((\<forall>n. bit (rules_in r) n \<longrightarrow> bit (mtrl_fl this) n) \<and>
      (\<forall>n. bit (rules_ex r) n \<longrightarrow> \<not> bit (mtrl_fl this) n))"
  by (simp only: test_def and_mask_eq_iff and_mask_zero_iff)

lemma isReflective_bits: "isReflective this = bit (mtrl_fl this) 8"
  unfolding isReflective_def test_bits reflectiveRules_def Mtrl_REFLECTIVE_def
  by (simp add: bit_shl1 del: push_bit_of_1)

lemma isOpaque_bits:
  "isOpaque this = (\<not> bit (mtrl_fl this) 8 \<and> \<not> bit (mtrl_fl this) 7 \<and> \<not> bit (mtrl_fl this) 5)"
  unfolding isOpaque_def test_bits opaqueRules_def Mtrl_REFLECTIVE_def Mtrl_TRANSPARENT_def
    Mtrl_DECAL_def
  by (auto simp add: bit_or_iff bit_shl1 simp del: push_bit_of_1)

lemma isOpaqueDecal_bits:
  "isOpaqueDecal this = (\<not> bit (mtrl_fl this) 8 \<and> \<not> bit (mtrl_fl this) 7 \<and> bit (mtrl_fl this) 5)"
  unfolding isOpaqueDecal_def test_bits opaqueDecalRules_def Mtrl_REFLECTIVE_def
    Mtrl_TRANSPARENT_def Mtrl_DECAL_def
  by (auto simp add: bit_or_iff bit_shl1 simp del: push_bit_of_1)

lemma isTransparentDecal_bits:
  "isTransparentDecal this = (\<not> bit (mtrl_fl this) 8 \<and> bit (mtrl_fl this) 7 \<and> bit (mtrl_fl this) 5)"
  unfolding isTransparentDecal_def test_bits transparentDecalRules_def Mtrl_REFLECTIVE_def
    Mtrl_TRANSPARENT_def Mtrl_DECAL_def
  by (auto simp add: bit_or_iff bit_shl1 simp del: push_bit_of_1)

lemma isTransparent_bits:
  "isTransparent this = (\<not> bit (mtrl_fl this) 8 \<and> bit (mtrl_fl this) 7 \<and> \<not> bit (mtrl_fl this) 5)"
  unfolding isTransparent_def test_bits transparentRules_def Mtrl_REFLECTIVE_def
    Mtrl_TRANSPARENT_def Mtrl_DECAL_def
  by (auto simp add: bit_or_iff bit_shl1 simp del: push_bit_of_1)

lemma buckets_exactly_one: "length (filter id (buckets this)) = 1"
  by (simp add: buckets_def isReflective_bits isOpaque_bits isOpaqueDecal_bits
      isTransparentDecal_bits isTransparent_bits)

section \<open>Render buckets\<close>

text \<open>
  C1. For every material flag word in which the particle flag is not set, exactly one of
  the five bucket predicates \<open>isReflective\<close>, \<open>isOpaque\<close>, \<open>isOpaqueDecal\<close>,
  \<open>isTransparentDecal\<close>, \<open>isTransparent\<close> holds, where each predicate is \<open>test\<close> on an
  include mask and an exclude mask, and \<open>test\<close> holds iff every bit of the include mask
  is set and no bit of the exclude mask is set in the flag word. (By
  \<open>buckets_exactly_one\<close> the particle flag plays no part.)
\<close>

theorem C1_exactly_one_bucket:
  "mtrl_fl this AND Mtrl_PARTICLE = 0 \<Longrightarrow>
     length (filter id (buckets this)) = 1 \<and>
     buckets this =
       [test this reflectiveRules, test this opaqueRules, test this opaqueDecalRules,
        test this transparentDecalRules, test this transparentRules] \<and>
     (\<forall>r. test this r =
        ((\<forall>n. bit (rules_in r) n \<longrightarrow> bit (mtrl_fl this) n) \<and>
         (\<forall>n. bit (rules_ex r) n \<longrightarrow> \<not> bit (mtrl_fl this) n)))"
proof (intro conjI allI)
  show "length (filter id (buckets this)) = 1"
    by (rule buckets_exactly_one)
  show "buckets this =
       [test this reflectiveRules, test this opaqueRules, test this opaqueDecalRules,
        test this transparentDecalRules, test this transparentRules]"
    by (simp add: buckets_def isReflective_def isOpaque_def isOpaqueDecal_def
        isTransparentDecal_def isTransparent_def)
  show "test this r =
        ((\<forall>n. bit (rules_in r) n \<longrightarrow> bit (mtrl_fl this) n) \<and>
         (\<forall>n. bit (rules_ex r) n \<longrightarrow> \<not> bit (mtrl_fl this) n))" for r
    by (rule test_bits)
qed

theorem C1_exactly_one_bucket_witness:
  "mtrl_fl example_mtrl AND Mtrl_PARTICLE = 0 \<and>
   length (filter id (buckets example_mtrl)) = 1 \<and>
   buckets example_mtrl = [False, False, False, True, False]"
proof -
  have h: "mtrl_fl example_mtrl AND Mtrl_PARTICLE = 0"
    by (simp add: example_mtrl_def Mtrl_new_def Mtrl_PARTICLE_def Mtrl_DECAL_def
        Mtrl_TRANSPARENT_def)
  have b: "buckets example_mtrl = [False, False, False, True, False]"
    by (simp add: buckets_def isReflective_bits isOpaque_bits isOpaqueDecal_bits
        isTransparentDecal_bits isTransparent_bits example_mtrl_def Mtrl_new_def
        Mtrl_DECAL_def Mtrl_TRANSPARENT_def)
  from C1_exactly_one_bucket [OF h] h b show ?thesis by simp
qed

section \<open>The material constructor\<close>

lemma Mtrl_new_const:
  "Mtrl_new solMtrl =
     \<lparr> mtrl_d = [0.8, 0.8, 0.8, 1.0], mtrl_a = [0.2, 0.2, 0.2, 1.0], mtrl_s = [0, 0, 0, 1],
       mtrl_e = [0, 0, 0, 1], mtrl_h = [0], mtrl_fl = 0, mtrl_f = [], alpha_func = 0,
       alpha_ref = 0, tex = None, loading = False \<rparr>"
  by (simp add: Mtrl_new_def)

lemma isOpaque_Mtrl_new: "isOpaque (Mtrl_new solMtrl)"
  by (simp add: isOpaque_bits Mtrl_new_def)

text \<open>
  C10. The material constructor ignores the decoded record passed to it: every material
  the scene builder constructs has flag word 0, the empty name, alpha function 0, no
  texture and the fixed default colours and shininess, whatever the record holds; so
  every such material is in the opaque bucket.
\<close>

theorem C10_constructor_ignores_record:
  fixes solMtrl :: 'rec and sol :: "('mrec, 'body) sol"
    and c :: "('mrec, 'body, 'model) collaborators"
  shows "(Mtrl_new solMtrl :: 'img Mtrl) =
     \<lparr> mtrl_d = [0.8, 0.8, 0.8, 1.0], mtrl_a = [0.2, 0.2, 0.2, 1.0], mtrl_s = [0, 0, 0, 1],
       mtrl_e = [0, 0, 0, 1], mtrl_h = [0], mtrl_fl = 0, mtrl_f = [], alpha_func = 0,
       alpha_ref = 0, tex = None, loading = False \<rparr> \<and>
   materials (fromSol glm c sol :: ('img, 'model, 'mrec) SolidModel) =
     map (\<lambda>solMtrl. Mtrl_new ()) (mv sol) \<and>
   length (materials (fromSol glm c sol :: ('img, 'model, 'mrec) SolidModel)) = length (mv sol) \<and>
   list_all isOpaque (materials (fromSol glm c sol :: ('img, 'model, 'mrec) SolidModel))"
proof (intro conjI)
  show "(Mtrl_new solMtrl :: 'img Mtrl) =
     \<lparr> mtrl_d = [0.8, 0.8, 0.8, 1.0], mtrl_a = [0.2, 0.2, 0.2, 1.0], mtrl_s = [0, 0, 0, 1],
       mtrl_e = [0, 0, 0, 1], mtrl_h = [0], mtrl_fl = 0, mtrl_f = [], alpha_func = 0,
       alpha_ref = 0, tex = None, loading = False \<rparr>"
    by (rule Mtrl_new_const)
  have m: "materials (fromSol glm c sol :: ('img, 'model, 'mrec) SolidModel) = map Mtrl_new (mv sol)"
    by (simp add: fromSol_def fromSol_materials_def SolidModel_new_def)
  show "materials (fromSol glm c sol :: ('img, 'model, 'mrec) SolidModel) =
      map (\<lambda>solMtrl. Mtrl_new ()) (mv sol)"
    unfolding m by (simp add: Mtrl_new_def)
  show "length (materials (fromSol glm c sol :: ('img, 'model, 'mrec) SolidModel)) = length (mv sol)"
    unfolding m by simp
  show "list_all isOpaque (materials (fromSol glm c sol :: ('img, 'model, 'mrec) SolidModel))"
    unfolding m by (simp add: list_all_iff isOpaque_Mtrl_new)
qed

theorem C10_constructor_ignores_record_witness:
  "materials (fromSol example_glm example_collaborators example_sol
     :: (unit, nat, string) SolidModel) = [Mtrl_new (), Mtrl_new ()] \<and>
   isOpaque (Mtrl_new ''mtrl/glass'' :: unit Mtrl) \<and>
   mtrl_f (Mtrl_new ''mtrl/glass'' :: unit Mtrl) = []"
proof -
  note th = C10_constructor_ignores_record
    [where solMtrl = "''mtrl/glass''" and glm = example_glm and c = example_collaborators
       and sol = example_sol and ?'img = unit and ?'model = nat]
  from th have "materials (fromSol example_glm example_collaborators example_sol
     :: (unit, nat, string) SolidModel) = map (\<lambda>solMtrl. Mtrl_new ()) (mv example_sol)"
    by blast
  moreover from th have "mtrl_f (Mtrl_new ''mtrl/glass'' :: unit Mtrl) = []"
    by simp
  moreover have "isOpaque (Mtrl_new ''mtrl/glass'' :: unit Mtrl)"
    by (rule isOpaque_Mtrl_new)
  ultimately show ?thesis
    by (simp add: example_sol_def)
qed

section \<open>The order of the draw passes\<close>

lemma passes_append: "passes (xs @ ys) = passes xs @ passes ys"
  by (induction xs rule: passes.induct) simp_all

lemma passes_entity_calls: "passes (entity_calls glm meshType parentMatrix ents) = []"
  by (induction ents) (auto split: option.splits)

lemma passes_pass_calls: "passes (pass_calls glm this parentMatrix meshType t m) = [meshType]"
  by (simp add: pass_calls_def passes_entity_calls)

lemma drawMeshType_loop_ok:
  "list_all model_set ents \<Longrightarrow>
     drawMeshType_loop glm meshType parentMatrix ents gl =
       Inr (gl\<lparr> calls := calls gl @ entity_calls glm meshType parentMatrix ents \<rparr>)"
proof (induction ents arbitrary: gl)
  case Nil
  then show ?case by simp
next
  case (Cons ent ents)
  then show ?case
    by (auto simp add: model_set_def gl_uniformMatrix4fv_def split: option.splits)
qed

lemma drawMeshType_ok:
  "list_all model_set (entities this) \<Longrightarrow>
     drawMeshType glm this meshType parentMatrix gl =
       Inr (gl\<lparr> calls := calls gl @
              pass_calls glm this parentMatrix meshType (depth_test gl) (depth_mask gl) \<rparr>)"
  by (simp add: drawMeshType_def drawMeshType_loop_ok pass_calls_def)

lemma drawBodies_ok:
  assumes "list_all model_set (entities this)"
  shows "drawBodies glm this parentMatrix gl =
     Inr \<lparr> depth_test = (depth_test gl \<or> \<not> transparentDepthTest this),
           depth_mask = (depth_mask gl \<or> \<not> transparentDepthMask this),
           calls = calls gl @
             pass_calls glm this parentMatrix ''reflective'' (depth_test gl) (depth_mask gl) @
             pass_calls glm this parentMatrix ''opaque'' (depth_test gl) (depth_mask gl) @
             pass_calls glm this parentMatrix ''opaqueDecal'' (depth_test gl) (depth_mask gl) @
             (if transparentDepthTest this then [] else [Disable_DEPTH_TEST]) @
             (if transparentDepthMask this then [] else [DepthMask False]) @
             pass_calls glm this parentMatrix ''transparentDecal''
               (depth_test gl \<and> transparentDepthTest this)
               (depth_mask gl \<and> transparentDepthMask this) @
             pass_calls glm this parentMatrix ''transparent''
               (depth_test gl \<and> transparentDepthTest this)
               (depth_mask gl \<and> transparentDepthMask this) @
             (if transparentDepthMask this then [] else [DepthMask True]) @
             (if transparentDepthTest this then [] else [Enable_DEPTH_TEST]) \<rparr>"
  by (simp add: drawBodies_def and_then_def drawMeshType_ok [OF assms] Let_def
      gl_disable_DEPTH_TEST_def gl_enable_DEPTH_TEST_def gl_depthMask_def)

text \<open>
  C3. In every invocation of \<open>drawBodies\<close> the five passes are issued in the order
  reflective, opaque, opaque-decal, transparent-decal, transparent. Where the scene
  configures the depth test or the depth mask off, the override is applied right before
  the transparent-decal pass and undone right after the transparent pass; the first
  three passes run under the caller's depth state. The caller's state is the one with
  depth test and depth writes on, which is the state the function leaves behind; and
  every drawable has its model, so that no pass throws.
\<close>

theorem C3_drawBodies_order:
  assumes "list_all model_set (entities this)" and "depth_test gl" and "depth_mask gl"
  shows "\<exists>gl'. drawBodies glm this parentMatrix gl = Inr gl' \<and>
     passes (drop (length (calls gl)) (calls gl')) =
       [''reflective'', ''opaque'', ''opaqueDecal'', ''transparentDecal'', ''transparent''] \<and>
     calls gl' =
       calls gl @
       pass_calls glm this parentMatrix ''reflective'' True True @
       pass_calls glm this parentMatrix ''opaque'' True True @
       pass_calls glm this parentMatrix ''opaqueDecal'' True True @
       (if transparentDepthTest this then [] else [Disable_DEPTH_TEST]) @
       (if transparentDepthMask this then [] else [DepthMask False]) @
       pass_calls glm this parentMatrix ''transparentDecal''
         (transparentDepthTest this) (transparentDepthMask this) @
       pass_calls glm this parentMatrix ''transparent''
         (transparentDepthTest this) (transparentDepthMask this) @
       (if transparentDepthMask this then [] else [DepthMask True]) @
       (if transparentDepthTest this then [] else [Enable_DEPTH_TEST]) \<and>
     depth_test gl' = depth_test gl \<and>
     depth_mask gl' = depth_mask gl"
  using assms(2,3)
  by (simp add: drawBodies_ok [OF assms(1)] passes_append passes_pass_calls)

lemma example_model_entities:
  "entities example_model =
     [\<lparr> tags = [''body''], drawable = Some \<lparr> model = Some 7 \<rparr>,
        modelMatrix = Some mat4_create, spatial = Some Spatial_new,
        movers = Some \<lparr> translate = Some 14, rotate_mover = Some 15 \<rparr>,
        item = None, billboard = None \<rparr>]"
  by (simp add: example_model_def fromSol_def SolidModel_new_def map_filter_def
      fromSol_body_def Let_def createEntity_def addTag_def Drawable_new_def
      ModelMatrix_new_def Movers_new_def example_collaborators_def)

theorem C3_drawBodies_order_witness:
  "list_all model_set (entities example_model) \<and>
   depth_test example_gl \<and> depth_mask example_gl \<and>
   drawBodies example_glm example_model None example_gl =
     Inr \<lparr> depth_test = True, depth_mask = True,
           calls =
             [DrawMeshType ''reflective'' True True,
              UniformMatrix4fv mat4_create, Model_drawMeshType 7 ''reflective'',
              DrawMeshType ''opaque'' True True,
              UniformMatrix4fv mat4_create, Model_drawMeshType 7 ''opaque'',
              DrawMeshType ''opaqueDecal'' True True,
              UniformMatrix4fv mat4_create, Model_drawMeshType 7 ''opaqueDecal'',
              Disable_DEPTH_TEST,
              DepthMask False,
              DrawMeshType ''transparentDecal'' False False,
              UniformMatrix4fv mat4_create, Model_drawMeshType 7 ''transparentDecal'',
              DrawMeshType ''transparent'' False False,
              UniformMatrix4fv mat4_create, Model_drawMeshType 7 ''transparent'',
              DepthMask True,
              Enable_DEPTH_TEST] \<rparr>"
proof -
  have s: "list_all model_set (entities example_model)"
    by (simp add: example_model_entities model_set_def)
  have t: "depth_test example_gl" and m: "depth_mask example_gl"
    by (simp_all add: example_gl_def)
  have c: "transparentDepthTest example_model = False"
    "transparentDepthMask example_model = False"
    by (simp_all add: example_model_def fromSol_def SolidModel_new_def)
  from C3_drawBodies_order [OF s t m, of example_glm None]
  obtain gl' where
    r: "drawBodies example_glm example_model None example_gl = Inr gl'"
    and l: "calls gl' =
       calls example_gl @
       pass_calls example_glm example_model None ''reflective'' True True @
       pass_calls example_glm example_model None ''opaque'' True True @
       pass_calls example_glm example_model None ''opaqueDecal'' True True @
       (if transparentDepthTest example_model then [] else [Disable_DEPTH_TEST]) @
       (if transparentDepthMask example_model then [] else [DepthMask False]) @
       pass_calls example_glm example_model None ''transparentDecal''
         (transparentDepthTest example_model) (transparentDepthMask example_model) @
       pass_calls example_glm example_model None ''transparent''
         (transparentDepthTest example_model) (transparentDepthMask example_model) @
       (if transparentDepthMask example_model then [] else [DepthMask True]) @
       (if transparentDepthTest example_model then [] else [Enable_DEPTH_TEST])"
    and d: "depth_test gl' = depth_test example_gl" "depth_mask gl' = depth_mask example_gl"
    by blast
  have "gl' = \<lparr> depth_test = depth_test gl', depth_mask = depth_mask gl', calls = calls gl' \<rparr>"
    by simp
  with l d c have "gl' =
     \<lparr> depth_test = True, depth_mask = True,
       calls =
             [DrawMeshType ''reflective'' True True,
              UniformMatrix4fv mat4_create, Model_drawMeshType 7 ''reflective'',
              DrawMeshType ''opaque'' True True,
              UniformMatrix4fv mat4_create, Model_drawMeshType 7 ''opaque'',
              DrawMeshType ''opaqueDecal'' True True,
              UniformMatrix4fv mat4_create, Model_drawMeshType 7 ''opaqueDecal'',
              Disable_DEPTH_TEST,
              DepthMask False,
              DrawMeshType ''transparentDecal'' False False,
              UniformMatrix4fv mat4_create, Model_drawMeshType 7 ''transparentDecal'',
              DrawMeshType ''transparent'' False False,
              UniformMatrix4fv mat4_create, Model_drawMeshType 7 ''transparent'',
              DepthMask True,
              Enable_DEPTH_TEST] \<rparr>"
    by (simp add: pass_calls_def example_model_entities example_gl_def)
  with r s t m show ?thesis by simp
qed

section \<open>The billboard transform\<close>

text \<open>
  C5. For every billboard with time scale \<open>t\<close> and coefficient triples \<open>w\<close>, \<open>h\<close>, \<open>rx\<close>,
  \<open>ry\<close>, \<open>rz\<close>, the foreground transform at global time \<open>g\<close> uses \<open>T = t g\<close> and
  \<open>S = sin T\<close>: the width is \<open>w0 + w1 T + w2 S\<close>, the height likewise, the three angles in
  degrees are \<open>r0 + r1 T + r2 S\<close>; the rotations are applied about x, then y, then z, each
  skipped when its angle is exactly zero, and then the matrix is scaled by
  \<open>(width, height, 0)\<close>. At global time 0 only the terms \<open>w0\<close>, \<open>h0\<close>, \<open>r0\<close> remain.
  This holds for every implementation \<open>glm\<close> of the matrix functions.
\<close>

theorem C5_billboard_transform:
  "getForegroundTransform glm this M globalTime =
     (let T = bill_t this * globalTime
      in mat4_scale glm
           (spec_rotate (mat4_rotateZ glm) (spec_evaluate (bill_rz this) T)
             (spec_rotate (mat4_rotateY glm) (spec_evaluate (bill_ry this) T)
               (spec_rotate (mat4_rotateX glm) (spec_evaluate (bill_rx this) T) M)))
           [spec_evaluate (bill_w this) T, spec_evaluate (bill_h this) T, 0]) \<and>
   getForegroundTransform glm this M 0 =
     mat4_scale glm
       (spec_rotate (mat4_rotateZ glm) (fst (bill_rz this))
         (spec_rotate (mat4_rotateY glm) (fst (bill_ry this))
           (spec_rotate (mat4_rotateX glm) (fst (bill_rx this)) M)))
       [fst (bill_w this), fst (bill_h this), 0]"
  by (simp add: getForegroundTransform_def spec_evaluate_def spec_rotate_def Let_def)

theorem C5_billboard_transform_witness:
  "getForegroundTransform example_glm example_bill [] 0 = [1, pi / 2, 4, 2, 3, 0]"
  using C5_billboard_transform [of example_glm example_bill "[]" 0, THEN conjunct2]
  by (simp add: example_glm_def example_bill_def Billboard_new_def spec_rotate_def)

section \<open>Loading textures\<close>

lemma loadTexture_noop:
  "loading this \<or> tex this \<noteq> None \<or> falsy (mtrlImages (mtrl_f this)) \<Longrightarrow>
     fst (loadTexture mtrlImages (this, env)) = this \<and>
     fetches (snd (loadTexture mtrlImages (this, env))) = fetches env"
  by (auto simp add: loadTexture_def Mtrl_toString_def)

lemma loadTexture_starts:
  "\<not> loading this \<Longrightarrow> tex this = None \<Longrightarrow> \<not> falsy (mtrlImages (mtrl_f this)) \<Longrightarrow>
     loadTexture mtrlImages (this, env) =
       (this\<lparr> loading := True \<rparr>, env\<lparr> fetches := fetches env @ [mtrlImages (mtrl_f this)] \<rparr>)"
  by (simp add: loadTexture_def Mtrl_toString_def)

lemma loadTexture_pending:
  "loading (fst st) \<Longrightarrow> loadTexture mtrlImages st = st"
  by (cases st) (simp add: loadTexture_def)

lemma loadTexture_pending_funpow:
  "loading (fst st) \<Longrightarrow> (loadTexture mtrlImages ^^ n) st = st"
  by (induction n) (simp_all add: loadTexture_pending)

lemma loadTexture_again:
  "fst (loadTexture mtrlImages (loadTexture mtrlImages st)) = fst (loadTexture mtrlImages st) \<and>
   fetches (snd (loadTexture mtrlImages (loadTexture mtrlImages st))) =
     fetches (snd (loadTexture mtrlImages st))"
  by (cases st) (auto simp add: loadTexture_def Mtrl_toString_def)

text \<open>
  C6. For every material, a texture load request is a no-op (no fetch is issued and the
  material is unchanged) whenever a load is pending, a texture exists, or the name of the
  material is unknown to the image table. Otherwise it sets the pending flag and issues
  one fetch, and then any number of further requests before the completion change
  nothing: no second fetch. The completion callback stores the texture and clears the
  pending flag.
\<close>

theorem C6_loadTexture_guarded:
  "(loading this \<or> tex this \<noteq> None \<or> falsy (mtrlImages (mtrl_f this)) \<longrightarrow>
      fst (loadTexture mtrlImages (this, env)) = this \<and>
      fetches (snd (loadTexture mtrlImages (this, env))) = fetches env) \<and>
   (\<not> loading this \<and> tex this = None \<and> \<not> falsy (mtrlImages (mtrl_f this)) \<longrightarrow>
      loadTexture mtrlImages (this, env) =
        (this\<lparr> loading := True \<rparr>, env\<lparr> fetches := fetches env @ [mtrlImages (mtrl_f this)] \<rparr>) \<and>
      (\<forall>n. (loadTexture mtrlImages ^^ n) (loadTexture mtrlImages (this, env)) =
             loadTexture mtrlImages (this, env))) \<and>
   fst (loadTexture mtrlImages (loadTexture mtrlImages (this, env))) =
     fst (loadTexture mtrlImages (this, env)) \<and>
   fetches (snd (loadTexture mtrlImages (loadTexture mtrlImages (this, env)))) =
     fetches (snd (loadTexture mtrlImages (this, env))) \<and>
   \<not> loading (loadTexture_then img this) \<and>
   tex (loadTexture_then img this) \<noteq> None"
proof (intro conjI impI)
  assume "loading this \<or> tex this \<noteq> None \<or> falsy (mtrlImages (mtrl_f this))"
  then show "fst (loadTexture mtrlImages (this, env)) = this"
    and "fetches (snd (loadTexture mtrlImages (this, env))) = fetches env"
    by (simp_all add: loadTexture_noop)
next
  assume a: "\<not> loading this \<and> tex this = None \<and> \<not> falsy (mtrlImages (mtrl_f this))"
  then show s: "loadTexture mtrlImages (this, env) =
        (this\<lparr> loading := True \<rparr>, env\<lparr> fetches := fetches env @ [mtrlImages (mtrl_f this)] \<rparr>)"
    by (simp add: loadTexture_starts)
  show "\<forall>n. (loadTexture mtrlImages ^^ n) (loadTexture mtrlImages (this, env)) =
             loadTexture mtrlImages (this, env)"
    by (simp add: s loadTexture_pending_funpow)
next
  show "fst (loadTexture mtrlImages (loadTexture mtrlImages (this, env))) =
     fst (loadTexture mtrlImages (this, env))"
    by (simp add: loadTexture_again)
  show "fetches (snd (loadTexture mtrlImages (loadTexture mtrlImages (this, env)))) =
     fetches (snd (loadTexture mtrlImages (this, env)))"
    by (simp add: loadTexture_again)
  show "\<not> loading (loadTexture_then img this)"
    by (simp add: loadTexture_then_def)
  show "tex (loadTexture_then img this) \<noteq> None"
    by (simp add: loadTexture_then_def createTexture_def)
qed

theorem C6_loadTexture_guarded_witness:
  "\<not> loading example_glass \<and> tex example_glass = None \<and>
   \<not> falsy (example_images (mtrl_f example_glass)) \<and>
   loadTexture example_images (example_glass, example_env) =
     (example_glass\<lparr> loading := True \<rparr>,
      \<lparr> fetches = [Some ''textures/mtrl/glass.png''], console = [] \<rparr>) \<and>
   fetches (snd (loadTexture example_images
     (loadTexture example_images (example_glass, example_env)))) =
     [Some ''textures/mtrl/glass.png''] \<and>
   loadTexture_then 7 (example_glass\<lparr> loading := True \<rparr>) =
     example_glass\<lparr> tex := Some \<lparr> wrap_s = CLAMP_TO_EDGE, wrap_t = REPEAT, mag_filter = LINEAR,
       min_filter = LINEAR_MIPMAP_LINEAR, image = 7, mipmap = True \<rparr> \<rparr> \<and>
   fetches (snd (loadTexture example_images
     (loadTexture_then 7 (example_glass\<lparr> loading := True \<rparr>), example_env))) = []"
proof -
  have h: "\<not> loading example_glass \<and> tex example_glass = None \<and>
      \<not> falsy (example_images (mtrl_f example_glass))"
    by (simp add: example_glass_def Mtrl_new_def example_images_def falsy_def)
  note th = C6_loadTexture_guarded [of example_glass example_images example_env 7]
  from th h have s: "loadTexture example_images (example_glass, example_env) =
     (example_glass\<lparr> loading := True \<rparr>,
      example_env\<lparr> fetches := fetches example_env @ [example_images (mtrl_f example_glass)] \<rparr>)"
    by blast
  have e: "example_env\<lparr> fetches := fetches example_env @ [example_images (mtrl_f example_glass)] \<rparr> =
      \<lparr> fetches = [Some ''textures/mtrl/glass.png''], console = [] \<rparr>"
    by (simp add: example_env_def example_glass_def Mtrl_new_def example_images_def)
  have t: "loadTexture_then 7 (example_glass\<lparr> loading := True \<rparr>) =
     example_glass\<lparr> tex := Some \<lparr> wrap_s = CLAMP_TO_EDGE, wrap_t = REPEAT, mag_filter = LINEAR,
       min_filter = LINEAR_MIPMAP_LINEAR, image = 7, mipmap = True \<rparr> \<rparr>"
    by (simp add: loadTexture_then_def createTexture_def example_glass_def Mtrl_new_def
        Mtrl_CLAMP_S_def Mtrl_CLAMP_T_def)
  have l: "fetches (snd (loadTexture example_images
     (loadTexture_then 7 (example_glass\<lparr> loading := True \<rparr>), example_env))) = []"
    unfolding t by (simp add: loadTexture_def example_env_def example_glass_def Mtrl_new_def)
  from th have "fetches (snd (loadTexture example_images
     (loadTexture example_images (example_glass, example_env)))) =
     fetches (snd (loadTexture example_images (example_glass, example_env)))"
    by blast
  with s e h t l show ?thesis by simp
qed

section \<open>The alpha test of a shader variant\<close>

lemma Mtrl_LIT_undefined: "js_get Mtrl_static ''LIT'' = JS_undefined"
  by (simp add: js_get_def Mtrl_static_def)

lemma Mtrl_ALPHA_TEST_read: "ToInt32 (js_get Mtrl_static ''ALPHA_TEST'') = Mtrl_ALPHA_TEST"
  by (simp add: js_get_def Mtrl_static_def Mtrl_ALPHA_TEST_def)

lemma Mtrl_ENVIRONMENT_read: "ToInt32 (js_get Mtrl_static ''ENVIRONMENT'') = Mtrl_ENVIRONMENT"
  by (simp add: js_get_def Mtrl_static_def Mtrl_ENVIRONMENT_def)

lemma selector_cases:
  "k \<le> 7 \<Longrightarrow> k \<in> {0, 1, 2, 3, 4, 5, 6, 7}" for k :: nat
  by auto

text \<open>
  The shader flags of a material with the alpha test flag keep its selector in the three
  bits above the lit and environment bits, and reading them back gives the selector.
\<close>

lemma shaderFlags_selector:
  assumes "ToInt32 (js_get mtrl ''fl'') AND Mtrl_ALPHA_TEST \<noteq> 0"
    and "js_get mtrl ''alphaFunc'' = JS_number (real k)"
    and "k \<le> 7"
  shows "alphaFuncFromShaderFlags (shaderFlags (Shader mtrl)) = of_nat k"
proof -
  from assms(3) have "k \<in> {0, 1, 2, 3, 4, 5, 6, 7}"
    by (rule selector_cases)
  with assms(1,2) show ?thesis
    by (elim insertE emptyE)
      (simp_all add: Shader_def shaderFlagsFromMtrl_def Mtrl_LIT_undefined Mtrl_ALPHA_TEST_read
        Mtrl_ENVIRONMENT_read shaderFlagsFromAlphaFunc_def alphaFuncFromShaderFlags_def
        Shader_ENVIRONMENT_def Let_def)
qed

lemma fragmentShader_selector:
  assumes "ToInt32 (js_get mtrl ''fl'') AND Mtrl_ALPHA_TEST \<noteq> 0"
    and "js_get mtrl ''alphaFunc'' = JS_number (real k)"
    and "k \<le> 7"
  shows "fragmentShader (Shader mtrl) =
     [Pipe ''frag.getTexCoord'', PipeUniforms ''sampleTexture'' None] @
     (case spec_alpha_snippet k of
        None \<Rightarrow> []
      | Some name \<Rightarrow> [Require name, PipeUniforms ''frag.alphaTest'' (Some [''AlphaRef''])]) @
     [Pipe ''frag.setFragColor'']"
proof -
  from assms(3) have "k \<in> {0, 1, 2, 3, 4, 5, 6, 7}"
    by (rule selector_cases)
  with assms(1,2) show ?thesis
    by (elim insertE emptyE)
      (simp_all add: Shader_def shaderFlagsFromMtrl_def Mtrl_LIT_undefined Mtrl_ALPHA_TEST_read
        Mtrl_ENVIRONMENT_read shaderFlagsFromAlphaFunc_def build_fragment_def
        alphaFuncFromShaderFlags_def Shader_LIT_def Shader_ALPHA_TEST_def
        Shader_ENVIRONMENT_def alphaFuncSnippets_def array_get_def uniforms_texture_def
        uniforms_alphaTest_def spec_alpha_snippet_def Let_def)
qed

text \<open>
  C2. For every material with the alpha test flag set, the shader variant built for it
  injects the comparison snippet selected by the alpha function selector of the material:
  the values 1 to 7 select equal, greater-or-equal, greater, less-or-equal, less, never
  and not-equal, and the snippet is required, with the alpha test, right before the final
  colour write; the value 0 injects no alpha test snippet. The selector is also what the
  shader flags of the variant hold. The material is the decoded record that
  \<open>shaderFlagsFromMtrl\<close> reads, with its flags in \<^verbatim>\<open>fl\<close> and its selector in \<^verbatim>\<open>alphaFunc\<close>.
\<close>

theorem C2_alpha_test_snippet:
  assumes "ToInt32 (js_get mtrl ''fl'') AND Mtrl_ALPHA_TEST \<noteq> 0"
    and "js_get mtrl ''alphaFunc'' = JS_number (real k)"
    and "k \<le> 7"
  shows "alphaFuncFromShaderFlags (shaderFlags (Shader mtrl)) = of_nat k \<and>
     fragmentShader (Shader mtrl) =
       [Pipe ''frag.getTexCoord'', PipeUniforms ''sampleTexture'' None] @
       (case spec_alpha_snippet k of
          None \<Rightarrow> []
        | Some name \<Rightarrow> [Require name, PipeUniforms ''frag.alphaTest'' (Some [''AlphaRef''])]) @
       [Pipe ''frag.setFragColor'']"
  using assms by (simp add: shaderFlags_selector fragmentShader_selector)

lemma example_sol_mtrl_reads:
  "ToInt32 (js_get (example_sol_mtrl k) ''fl'') AND Mtrl_ALPHA_TEST \<noteq> 0"
  "js_get (example_sol_mtrl k) ''alphaFunc'' = JS_number (real k)"
  by (simp_all add: js_get_def example_sol_mtrl_def Mtrl_ALPHA_TEST_def)

theorem C2_alpha_test_snippet_witness:
  "ToInt32 (js_get (example_sol_mtrl 7) ''fl'') AND Mtrl_ALPHA_TEST \<noteq> 0 \<and>
   js_get (example_sol_mtrl 7) ''alphaFunc'' = JS_number (real 7) \<and>
   (7 :: nat) \<le> 7 \<and>
   fragmentShader (Shader (example_sol_mtrl 7)) =
     [Pipe ''frag.getTexCoord'', PipeUniforms ''sampleTexture'' None,
      Require ''testNotEqual'', PipeUniforms ''frag.alphaTest'' (Some [''AlphaRef'']),
      Pipe ''frag.setFragColor''] \<and>
   fragmentShader (Shader (example_sol_mtrl 1)) =
     [Pipe ''frag.getTexCoord'', PipeUniforms ''sampleTexture'' None,
      Require ''testEqual'', PipeUniforms ''frag.alphaTest'' (Some [''AlphaRef'']),
      Pipe ''frag.setFragColor''] \<and>
   fragmentShader (Shader (example_sol_mtrl 0)) =
     [Pipe ''frag.getTexCoord'', PipeUniforms ''sampleTexture'' None,
      Pipe ''frag.setFragColor'']"
proof -
  have 7: "fragmentShader (Shader (example_sol_mtrl 7)) =
     [Pipe ''frag.getTexCoord'', PipeUniforms ''sampleTexture'' None,
      Require ''testNotEqual'', PipeUniforms ''frag.alphaTest'' (Some [''AlphaRef'']),
      Pipe ''frag.setFragColor'']"
    using C2_alpha_test_snippet [OF example_sol_mtrl_reads, of 7]
    by (simp add: spec_alpha_snippet_def)
  have 1: "fragmentShader (Shader (example_sol_mtrl 1)) =
     [Pipe ''frag.getTexCoord'', PipeUniforms ''sampleTexture'' None,
      Require ''testEqual'', PipeUniforms ''frag.alphaTest'' (Some [''AlphaRef'']),
      Pipe ''frag.setFragColor'']"
    using C2_alpha_test_snippet [OF example_sol_mtrl_reads, of 1]
    by (simp add: spec_alpha_snippet_def)
  have 0: "fragmentShader (Shader (example_sol_mtrl 0)) =
     [Pipe ''frag.getTexCoord'', PipeUniforms ''sampleTexture'' None,
      Pipe ''frag.setFragColor'']"
    using C2_alpha_test_snippet [OF example_sol_mtrl_reads, of 0]
    by (simp add: spec_alpha_snippet_def)
  from 7 1 0 example_sol_mtrl_reads [of 7] show ?thesis
    by simp
qed

text \<open>
  The table of snippets read through flags made from each selector, and the fragment
  graph for flags that hold the selector 3 alone.
\<close>

lemma selector_selects_snippet:
  "map (\<lambda>k. array_get alphaFuncSnippets
          (unat (alphaFuncFromShaderFlags (shaderFlagsFromAlphaFunc (JS_number k)))))
     [0, 1, 2, 3, 4, 5, 6, 7] =
   [Some None, Some (Some ''testEqual''), Some (Some ''testGequal''),
    Some (Some ''testGreater''), Some (Some ''testLequal''), Some (Some ''testLess''),
    Some (Some ''testNever''), Some (Some ''testNotEqual'')]"
  by (simp add: alphaFuncFromShaderFlags_def shaderFlagsFromAlphaFunc_def
      alphaFuncSnippets_def array_get_def)

lemma build_fragment_selector:
  "build_fragment (shaderFlagsFromAlphaFunc (JS_number 3)) =
     [Pipe ''frag.getTexCoord'', PipeUniforms ''sampleTexture'' None,
      Require ''testGreater'', PipeUniforms ''frag.alphaTest'' (Some [''AlphaRef'']),
      Pipe ''frag.setFragColor'']"
  by (simp add: build_fragment_def shaderFlagsFromAlphaFunc_def alphaFuncFromShaderFlags_def
      Shader_LIT_def Shader_ALPHA_TEST_def alphaFuncSnippets_def array_get_def
      uniforms_texture_def uniforms_alphaTest_def)

section \<open>Ball entities\<close>

lemma fromSol_ball_eq:
  "fromSol_ball solBall =
     \<lparr> tags = [''ball''], drawable = None,
       modelMatrix = Some (spec_scale_translate (solBall_r solBall) (solBall_p solBall)),
       spatial = Some \<lparr> position = solBall_p solBall, orientation = quat_create,
                        scale = ScaleNumber (solBall_r solBall) \<rparr>,
       movers = None, item = None, billboard = None \<rparr>"
  by (simp add: fromSol_ball_def createEntity_def addTag_def Spatial_new_def vec3_set_def
      mat4_set_def spec_scale_translate_def Let_def split: prod.splits)

lemma fromSol_item_eq:
  "itemTags (solItem_t solItem) = Some tg \<Longrightarrow>
   fromSol_item solItem =
     Some \<lparr> tags = [''item'', tg], drawable = None,
       modelMatrix = Some (spec_scale_translate 0.15 (solItem_p solItem)),
       spatial = Some \<lparr> position = solItem_p solItem, orientation = quat_create,
                        scale = ScaleVec3 (0.15, 0.15, 0.15) \<rparr>,
       movers = None, item = Some \<lparr> item_value = solItem_n solItem \<rparr>, billboard = None \<rparr>"
  by (simp add: fromSol_item_def createEntity_def addTag_def Spatial_new_def vec3_set_def
      mat4_set_def spec_scale_translate_def Item_new_def vec3_fromValues_def Let_def
      split: prod.splits)

lemma has_tag_body: "\<not> has_tag ''ball'' (fromSol_body c sol b)"
  by (simp add: has_tag_def fromSol_body_def createEntity_def addTag_def Let_def)

lemma has_tag_bill: "\<not> has_tag ''ball'' (fromSol_bill glm sol b)"
  by (simp add: has_tag_def fromSol_bill_def createEntity_def addTag_def Let_def)

lemma has_tag_ball: "has_tag ''ball'' (fromSol_ball b)"
  by (simp add: has_tag_def fromSol_ball_eq)

lemma has_tag_item: "fromSol_item it = Some ent \<Longrightarrow> \<not> has_tag ''ball'' ent"
  by (auto simp add: has_tag_def fromSol_item_def createEntity_def addTag_def Let_def
      itemTags_def split: option.splits if_splits)

lemma filter_none: "(\<And>x. x \<in> set xs \<Longrightarrow> \<not> P x) \<Longrightarrow> filter P xs = []"
  by (induction xs) auto

lemma filter_all: "(\<And>x. x \<in> set xs \<Longrightarrow> P x) \<Longrightarrow> filter P xs = xs"
  by (induction xs) auto

lemma balls_of_fromSol:
  "filter (has_tag ''ball'') (entities (fromSol glm c sol)) = map fromSol_ball (uv sol)"
proof -
  have 1: "filter (has_tag ''ball'') (map (fromSol_body c sol) (bv sol)) = []"
    by (rule filter_none) (auto simp add: has_tag_body)
  have 2: "filter (has_tag ''ball'') (List.map_filter fromSol_item (hv sol)) = []"
    by (rule filter_none) (auto simp add: map_filter_def dest: has_tag_item)
  have 3: "filter (has_tag ''ball'') (map fromSol_ball (uv sol)) = map fromSol_ball (uv sol)"
    by (rule filter_all) (auto simp add: has_tag_ball)
  have 4: "filter (has_tag ''ball'') (map (fromSol_bill glm sol) (rv sol)) = []"
    by (rule filter_none) (auto simp add: has_tag_bill)
  show ?thesis
    by (simp add: fromSol_def SolidModel_new_def 1 2 3 4)
qed

text \<open>
  C8. The claim: for every decoded ball the scene builder creates one entity tagged
  \<^verbatim>\<open>ball\<close> whose Spatial holds the position as a 3-vector and the radius as a 3-vector
  scale, and whose ModelMatrix is the scale-then-translate matrix of the items. The code:
  one ball entity for each ball, in order, with that matrix and that position, but the
  statement \<^verbatim>\<open>ent.spatial.scale = r\<close> replaces the scale vector by the number \<open>r\<close>, where
  the item loop writes \<^verbatim>\<open>vec3.set(ent.spatial.scale, r, r, r)\<close> (see \<open>fromSol_item_eq\<close>).
\<close>

theorem C8_ball_scale_is_a_number:
  "filter (has_tag ''ball'') (entities (fromSol glm c sol)) = map fromSol_ball (uv sol) \<and>
   tags (fromSol_ball solBall) = [''ball''] \<and>
   modelMatrix (fromSol_ball solBall) =
     Some (spec_scale_translate (solBall_r solBall) (solBall_p solBall)) \<and>
   spatial (fromSol_ball solBall) =
     Some \<lparr> position = solBall_p solBall, orientation = quat_create,
            scale = ScaleNumber (solBall_r solBall) \<rparr> \<and>
   map_option scale (spatial (fromSol_ball solBall)) \<noteq>
     Some (ScaleVec3 (solBall_r solBall, solBall_r solBall, solBall_r solBall))"
  by (simp add: balls_of_fromSol fromSol_ball_eq)

theorem C8_ball_scale_is_a_number_witness:
  "filter (has_tag ''ball'')
     (entities (fromSol example_glm example_collaborators example_sol
        :: (unit, nat, string) SolidModel)) =
     [\<lparr> tags = [''ball''], drawable = None,
        modelMatrix = Some [1 / 4, 0, 0, 0,  0, 1 / 4, 0, 0,  0, 0, 1 / 4, 0,  1, 2, 3, 1],
        spatial = Some \<lparr> position = (1, 2, 3), orientation = (0, 0, 0, 1),
                         scale = ScaleNumber (1 / 4) \<rparr>,
        movers = None, item = None, billboard = None \<rparr>]"
  using C8_ball_scale_is_a_number
    [where glm = example_glm and c = example_collaborators and sol = example_sol, THEN conjunct1]
  by (simp add: example_sol_def fromSol_ball_eq spec_scale_translate_def quat_create_def)

section \<open>Packing vertices\<close>

lemma length_write_view: "length (write_view buf pos vs) = length buf"
  by (induction vs arbitrary: buf pos) simp_all

lemma write_view_before: "i < pos \<Longrightarrow> write_view buf pos vs ! i = buf ! i"
  by (induction vs arbitrary: buf pos) simp_all

lemma write_view_after: "pos + length vs \<le> i \<Longrightarrow> write_view buf pos vs ! i = buf ! i"
  by (induction vs arbitrary: buf pos) simp_all

lemma write_view_at:
  "pos + length vs \<le> length buf \<Longrightarrow> i < length vs \<Longrightarrow> write_view buf pos vs ! (pos + i) = vs ! i"
proof (induction vs arbitrary: buf pos i)
  case Nil
  then show ?case by simp
next
  case (Cons v vs)
  show ?case
  proof (cases i)
    case 0
    with Cons.prems show ?thesis by (simp add: write_view_before)
  next
    case (Suc j)
    with Cons.prems have "write_view (buf[pos := v]) (Suc pos) vs ! (Suc pos + j) = vs ! j"
      by (intro Cons.IH) simp_all
    with Suc show ?thesis by simp
  qed
qed

lemma length_vertex_floats: "length (vertex_floats v) = 8"
  by (simp add: vertex_floats_def split: prod.splits)

lemma vertex_at_write_view:
  assumes "8 * k + 8 \<le> length buf"
  shows "vertex_at (write_view buf (8 * k) (vertex_floats v)) k = v"
proof -
  define B where "B = write_view buf (8 * k) (vertex_floats v)"
  define vf where "vf = vertex_floats v"
  have *: "B ! (8 * k + i) = vf ! i" if "i < 8" for i
    unfolding B_def vf_def
    using assms that by (intro write_view_at) (simp_all add: length_vertex_floats)
  have 0: "B ! (8 * k) = vf ! 0"
    using * [of 0] by simp
  have 1: "B ! Suc (8 * k) = vf ! 1"
    using * [of 1] by simp
  have 2: "B ! Suc (Suc (8 * k)) = vf ! 2"
    using * [of 2] by simp
  have "vertex_at B k =
      ((vf ! 0, vf ! 1, vf ! 2), (vf ! 3, vf ! 4, vf ! 5), (vf ! 6, vf ! 7))"
    by (simp add: vertex_at_def Mesh_stride_def * 0 1 2)
  also have "\<dots> = v"
    unfolding vf_def by (cases v) (auto simp add: vertex_floats_def)
  finally show ?thesis
    unfolding B_def .
qed

lemma vertex_at_write_view_other:
  assumes "i < k"
  shows "vertex_at (write_view buf (8 * k) vs) i = vertex_at buf i"
  using assms by (simp add: vertex_at_def Mesh_stride_def write_view_before)

text \<open>
  The invariant of the caller's loop: with room left for the vertices still to come,
  every call succeeds, the count grows by one, the vertices packed so far stay, and the
  new vertex reads back from its slot.
\<close>

lemma addVertsFromSol_inv:
  assumes "verts this = Some buf" and "length buf = 8 * n" and "count this + length offs \<le> n"
  shows "\<exists>buf'. addVertsFromSol sol offs this =
           Inr (this\<lparr> verts := Some buf', count := count this + length offs \<rparr>) \<and>
         length buf' = 8 * n \<and>
         (\<forall>i < count this. vertex_at buf' i = vertex_at buf i) \<and>
         (\<forall>i < length offs. vertex_at buf' (count this + i) = sol (offs ! i))"
  using assms
proof (induction offs arbitrary: this buf)
  case Nil
  then show ?case by (intro exI [of _ buf]) simp
next
  case (Cons o1 offs)
  let ?buf1 = "write_view buf (8 * count this) (vertex_floats (sol o1))"
  let ?this1 = "this\<lparr> verts := Some ?buf1, count := count this + 1 \<rparr>"
  have step: "addVertFromSol sol o1 this = Inr ?this1"
    using Cons.prems by (simp add: addVertFromSol_def getVert_def Mesh_stride_def mult.commute)
  have len1: "length ?buf1 = 8 * n"
    using Cons.prems by (simp add: length_write_view)
  from Cons.prems have room: "8 * count this + 8 \<le> length buf" by simp
  have "\<exists>buf'. addVertsFromSol sol offs ?this1 =
           Inr (?this1\<lparr> verts := Some buf', count := count ?this1 + length offs \<rparr>) \<and>
         length buf' = 8 * n \<and>
         (\<forall>i < count ?this1. vertex_at buf' i = vertex_at ?buf1 i) \<and>
         (\<forall>i < length offs. vertex_at buf' (count ?this1 + i) = sol (offs ! i))"
    using Cons.prems len1 by (intro Cons.IH) simp_all
  then obtain buf' where
    r: "addVertsFromSol sol offs ?this1 =
           Inr (?this1\<lparr> verts := Some buf', count := count ?this1 + length offs \<rparr>)"
    and l: "length buf' = 8 * n"
    and old: "\<forall>i < count ?this1. vertex_at buf' i = vertex_at ?buf1 i"
    and new: "\<forall>i < length offs. vertex_at buf' (count ?this1 + i) = sol (offs ! i)"
    by blast
  have a: "addVertsFromSol sol (o1 # offs) this =
      Inr (this\<lparr> verts := Some buf', count := count this + length (o1 # offs) \<rparr>)"
    using step r by simp
  have b: "\<forall>i < count this. vertex_at buf' i = vertex_at buf i"
  proof (intro allI impI)
    fix i assume i: "i < count this"
    then have "vertex_at buf' i = vertex_at ?buf1 i" using old by simp
    also have "\<dots> = vertex_at buf i" using i by (rule vertex_at_write_view_other)
    finally show "vertex_at buf' i = vertex_at buf i" .
  qed
  have c: "\<forall>i < length (o1 # offs). vertex_at buf' (count this + i) = sol ((o1 # offs) ! i)"
  proof (intro allI impI)
    fix i assume i: "i < length (o1 # offs)"
    show "vertex_at buf' (count this + i) = sol ((o1 # offs) ! i)"
    proof (cases i)
      case 0
      have "vertex_at buf' (count this) = vertex_at ?buf1 (count this)" using old by simp
      also have "\<dots> = sol o1" using room by (rule vertex_at_write_view)
      finally show ?thesis using 0 by simp
    next
      case (Suc j)
      with i new show ?thesis by simp
    qed
  qed
  from a l b c show ?case by blast
qed

text \<open>
  C9, as amended. For every non-empty sequence of \<open>N\<close> source vertices, appending them to
  a mesh made for \<open>N\<close> vertices succeeds and leaves a buffer of exactly \<open>N * 8\<close> floats
  (3 position, 3 normal, 2 texcoord for each vertex), from which the vertices read back
  in the same order, and a count of \<open>N\<close>. For the empty sequence the mesh has no buffer:
  \<open>verts\<close> is \<^verbatim>\<open>null\<close>, and the count is 0.
\<close>

theorem C9_pack_roundtrip:
  "(offs \<noteq> [] \<longrightarrow>
      (\<exists>buf. addVertsFromSol sol offs (Mesh_new (length offs) mtrl) =
                Inr \<lparr> mesh_mtrl = mtrl, verts = Some buf, count = length offs, vbo = None \<rparr> \<and>
             length buf = length offs * 8 \<and>
             map (vertex_at buf) [0 ..< length offs] = map sol offs)) \<and>
   addVertsFromSol sol [] (Mesh_new 0 mtrl) =
     Inr \<lparr> mesh_mtrl = mtrl, verts = None, count = 0, vbo = None \<rparr>"
proof (intro conjI impI)
  assume ne: "offs \<noteq> []"
  define n where "n = length offs"
  define this where "this = Mesh_new n mtrl"
  define buf0 :: "real list" where "buf0 = replicate (8 * n) 0"
  from ne have n: "n \<noteq> 0" by (simp add: n_def)
  have v: "verts this = Some buf0"
    using n by (simp add: this_def Mesh_new_def buf0_def Mesh_stride_def)
  have c: "count this = 0"
    by (simp add: this_def Mesh_new_def)
  have "\<exists>buf'. addVertsFromSol sol offs this =
           Inr (this\<lparr> verts := Some buf', count := count this + length offs \<rparr>) \<and>
         length buf' = 8 * n \<and>
         (\<forall>i < count this. vertex_at buf' i = vertex_at buf0 i) \<and>
         (\<forall>i < length offs. vertex_at buf' (count this + i) = sol (offs ! i))"
    using v by (rule addVertsFromSol_inv) (simp_all add: buf0_def c n_def)
  then obtain buf where
    r: "addVertsFromSol sol offs this =
          Inr (this\<lparr> verts := Some buf, count := count this + length offs \<rparr>)"
    and l: "length buf = 8 * n"
    and g: "\<forall>i < length offs. vertex_at buf (count this + i) = sol (offs ! i)"
    by blast
  have 1: "addVertsFromSol sol offs (Mesh_new (length offs) mtrl) =
      Inr \<lparr> mesh_mtrl = mtrl, verts = Some buf, count = length offs, vbo = None \<rparr>"
    using r by (simp add: this_def n_def Mesh_new_def)
  have 2: "length buf = length offs * 8"
    using l by (simp add: n_def)
  have 3: "map (vertex_at buf) [0 ..< length offs] = map sol offs"
    using g c by (intro nth_equalityI) simp_all
  from 1 2 3 show "\<exists>buf. addVertsFromSol sol offs (Mesh_new (length offs) mtrl) =
                Inr \<lparr> mesh_mtrl = mtrl, verts = Some buf, count = length offs, vbo = None \<rparr> \<and>
             length buf = length offs * 8 \<and>
             map (vertex_at buf) [0 ..< length offs] = map sol offs"
    by blast
next
  show "addVertsFromSol sol [] (Mesh_new 0 mtrl) =
     Inr \<lparr> mesh_mtrl = mtrl, verts = None, count = 0, vbo = None \<rparr>"
    by (simp add: Mesh_new_def)
qed

theorem C9_pack_roundtrip_witness:
  "[0::nat, 1] \<noteq> [] \<and>
   addVertsFromSol example_getVert [0, 1] (Mesh_new 2 None) =
     Inr \<lparr> mesh_mtrl = None,
           verts = Some [0, 1, 2, 0, 0, 1, 0, 1,  1, 2, 3, 0, 0, 1, 1 / 2, 1],
           count = 2, vbo = None \<rparr> \<and>
   map (vertex_at [0, 1, 2, 0, 0, 1, 0, 1,  1, 2, 3, 0, 0, 1, 1 / 2, 1]) [0 ..< 2] =
     map example_getVert [0, 1]"
proof -
  have e: "addVertsFromSol example_getVert [0, 1] (Mesh_new 2 None) =
     Inr \<lparr> mesh_mtrl = None,
           verts = Some [0, 1, 2, 0, 0, 1, 0, 1,  1, 2, 3, 0, 0, 1, 1 / 2, 1],
           count = 2, vbo = None \<rparr>"
    by (simp add: Mesh_new_def addVertFromSol_def getVert_def Mesh_stride_def
        example_getVert_def vertex_floats_def numeral_eq_Suc)
  have len: "length [0::nat, 1] = 2" by simp
  have ne: "[0::nat, 1] \<noteq> []" by simp
  from C9_pack_roundtrip [of "[0::nat, 1]" example_getVert None, THEN conjunct1, rule_format, OF ne]
  obtain buf where
    b1: "addVertsFromSol example_getVert [0, 1] (Mesh_new (length [0::nat, 1]) None) =
       Inr \<lparr> mesh_mtrl = None, verts = Some buf, count = length [0::nat, 1], vbo = None \<rparr>"
    and b2: "map (vertex_at buf) [0 ..< length [0::nat, 1]] = map example_getVert [0, 1]"
    by blast
  from b1 e have "buf = [0, 1, 2, 0, 0, 1, 0, 1,  1, 2, 3, 0, 0, 1, 1 / 2, 1]"
    unfolding len by simp
  with b2 have "map (vertex_at [0, 1, 2, 0, 0, 1, 0, 1,  1, 2, 3, 0, 0, 1, 1 / 2, 1]) [0 ..< 2] =
     map example_getVert [0, 1]"
    unfolding len by simp
  with e ne show ?thesis by blast
qed

text \<open>
  C9 as stated, at the empty sequence: the claim promises a buffer of \<open>0 * 8\<close> floats;
  the constructor evaluates \<^verbatim>\<open>count ? new Float32Array(...) : null\<close> and stores \<^verbatim>\<open>null\<close>.
\<close>

theorem C9_empty_sequence_counterexample:
  "addVertsFromSol example_getVert [] (Mesh_new (length ([] :: nat list)) None) =
     Inr \<lparr> mesh_mtrl = None, verts = None, count = 0, vbo = None \<rparr>"
  by (simp add: Mesh_new_def)

section \<open>Drawing with missing GL resources\<close>

lemma Mtrl_draw_eq:
  "Mtrl_draw state this gl =
     gl\<lparr> TEXTURE_2D := (if enableTextures state \<and> tex this \<noteq> None then tex this
                         else defaultTexture state),
         uDiffuse := mtrl_d this,
         uAmbient := mtrl_a this,
         uSpecular := mtrl_s this,
         uEmissive := mtrl_e this,
         uShininess := (case mtrl_h this of [] \<Rightarrow> None | x # xs \<Rightarrow> Some x),
         uEnvironment := (if mtrl_fl this AND Mtrl_ENVIRONMENT \<noteq> 0 then 1 else 0),
         blendFunc := (if mtrl_fl this AND Mtrl_ADDITIVE \<noteq> 0 then (SRC_ALPHA, ONE)
                       else (SRC_ALPHA, ONE_MINUS_SRC_ALPHA)),
         CULL_FACE := (mtrl_fl this AND Mtrl_TWO_SIDED = 0),
         POLYGON_OFFSET_FILL := (mtrl_fl this AND Mtrl_DECAL \<noteq> 0),
         polygonOffset := (if mtrl_fl this AND Mtrl_DECAL \<noteq> 0 then (- 1, - 2) else (0, 0)) \<rparr>"
  by (auto simp add: Mtrl_draw_def Let_def)

lemma Mtrl_draw_absorb:
  "Mtrl_draw state m2 (Mtrl_draw state m1 gl) = Mtrl_draw state m2 gl"
  by (simp add: Mtrl_draw_eq)

lemma Mtrl_draw_arrays [simp]:
  "ARRAY_BUFFER (Mtrl_draw state m gl) = ARRAY_BUFFER gl"
  "enabledArrays (Mtrl_draw state m gl) = enabledArrays gl"
  "vertexAttribs (Mtrl_draw state m gl) = vertexAttribs gl"
  by (simp_all add: Mtrl_draw_eq)

lemma Mesh_draw_no_vbo:
  "mesh_mtrl this = Some m \<Longrightarrow> vbo this = None \<Longrightarrow>
     Mesh_draw state mtrls this gl = Inr (gl\<lparr> render := Mtrl_draw state (mtrls m) (render gl) \<rparr>)"
  by (simp add: Mesh_draw_def)

lemma Mesh_draw_Inr:
  "mesh_mtrl this = Some m \<Longrightarrow> \<exists>gl'. Mesh_draw state mtrls this gl = Inr gl'"
  by (cases "vbo this") (simp_all add: Mesh_draw_def Let_def)

lemma Mesh_draw_texture:
  "mesh_mtrl this = Some m \<Longrightarrow>
     TEXTURE_2D (render (projr (Mesh_draw state mtrls this gl))) =
       (if enableTextures state \<and> tex (mtrls m) \<noteq> None then tex (mtrls m)
        else defaultTexture state)"
  by (cases "vbo this")
    (simp_all add: Mesh_draw_def Let_def Mtrl_draw_eq enableArray_def vertexAttribPointer_def)

lemma Mesh_draw_vbo_draws:
  "mesh_mtrl this = Some m \<Longrightarrow> vbo this = Some b \<Longrightarrow>
     drawArrays (projr (Mesh_draw state mtrls this gl)) =
       drawArrays gl @ [(render (projr (Mesh_draw state mtrls this gl)), count this)]"
  by (simp add: Mesh_draw_def Let_def)


lemma Mesh_draw_independent:
  assumes "mesh_mtrl this = Some m" and "mesh_mtrl other = Some m'"
  shows "new_draws (projr (Mesh_draw state mtrls this gl))
           (projr (Mesh_draw state mtrls other (projr (Mesh_draw state mtrls this gl)))) =
         new_draws gl (projr (Mesh_draw state mtrls other gl))"
proof (cases "vbo other")
  case None
  with assms show ?thesis
    by (cases "vbo this") (simp_all add: Mesh_draw_def Let_def new_draws_def)
next
  case (Some b')
  have ea: "insert i (insert j (insert k (insert i (insert j (insert k A))))) =
      insert i (insert j (insert k A))" for i j k :: nat and A
    by auto
  have va: "f(i := x, j := y, k := z, i := x', j := y', k := z') = f(i := x', j := y', k := z')"
    for f :: "nat \<Rightarrow> (nat option \<times> nat \<times> nat \<times> nat) option" and i j k x y z x' y' z'
    by (auto simp add: fun_eq_iff)
  from assms Some show ?thesis
    by (cases "vbo this")
      (simp_all add: Mesh_draw_def Let_def new_draws_def Mtrl_draw_eq enableArray_def
        vertexAttribPointer_def ea va)
qed


lemma Mesh_draw_no_vbo_draws:
  "mesh_mtrl this = Some m \<Longrightarrow> vbo this = None \<Longrightarrow>
     new_draws gl (projr (Mesh_draw state mtrls this gl)) = []"
  by (simp add: Mesh_draw_no_vbo new_draws_def)

lemma Mesh_draw_vbo_new_draws:
  "mesh_mtrl this = Some m \<Longrightarrow> vbo this = Some b \<Longrightarrow>
     new_draws gl (projr (Mesh_draw state mtrls this gl)) =
       [(render (projr (Mesh_draw state mtrls this gl)), count this)]"
  by (simp add: Mesh_draw_vbo_draws new_draws_def)

text \<open>
  C7, as amended. For a mesh that has a material: when its buffer was never uploaded, the
  draw call for it is skipped, and only the material state is applied; when the texture
  of its material was never loaded, the default texture is bound in its place and the
  mesh is drawn all the same if its buffer exists. Either way no other mesh is affected:
  the draw calls another mesh issues, with the state they run under, are the same
  whether or not this mesh was drawn before it.
\<close>

theorem C7_missing_resource:
  assumes "mesh_mtrl this = Some m"
  shows "\<not> isl (Mesh_draw state mtrls this gl) \<and>
    (vbo this = None \<longrightarrow>
       Mesh_draw state mtrls this gl =
         Inr (gl\<lparr> render := Mtrl_draw state (mtrls m) (render gl) \<rparr>) \<and>
       new_draws gl (projr (Mesh_draw state mtrls this gl)) = []) \<and>
    (tex (mtrls m) = None \<longrightarrow>
       TEXTURE_2D (render (projr (Mesh_draw state mtrls this gl))) = defaultTexture state \<and>
       (\<forall>b. vbo this = Some b \<longrightarrow>
          new_draws gl (projr (Mesh_draw state mtrls this gl)) =
            [(render (projr (Mesh_draw state mtrls this gl)), count this)])) \<and>
    (\<forall>other m'. mesh_mtrl other = Some m' \<longrightarrow>
       new_draws (projr (Mesh_draw state mtrls this gl))
         (projr (Mesh_draw state mtrls other (projr (Mesh_draw state mtrls this gl)))) =
       new_draws gl (projr (Mesh_draw state mtrls other gl)))"
proof (intro conjI impI allI)
  from Mesh_draw_Inr [OF assms] show "\<not> isl (Mesh_draw state mtrls this gl)"
    by (metis sum.disc(2))
next
  assume "vbo this = None"
  with assms show "Mesh_draw state mtrls this gl =
         Inr (gl\<lparr> render := Mtrl_draw state (mtrls m) (render gl) \<rparr>)"
    and "new_draws gl (projr (Mesh_draw state mtrls this gl)) = []"
    by (simp_all add: Mesh_draw_no_vbo new_draws_def)
next
  assume "tex (mtrls m) = None"
  with assms show "TEXTURE_2D (render (projr (Mesh_draw state mtrls this gl))) = defaultTexture state"
    by (simp add: Mesh_draw_texture)
next
  fix b assume "vbo this = Some b"
  with assms show "new_draws gl (projr (Mesh_draw state mtrls this gl)) =
            [(render (projr (Mesh_draw state mtrls this gl)), count this)]"
    by (rule Mesh_draw_vbo_new_draws)
next
  fix other :: Mesh and m' assume "mesh_mtrl other = Some m'"
  with assms show "new_draws (projr (Mesh_draw state mtrls this gl))
         (projr (Mesh_draw state mtrls other (projr (Mesh_draw state mtrls this gl)))) =
       new_draws gl (projr (Mesh_draw state mtrls other gl))"
    by (rule Mesh_draw_independent)
qed

lemma example_mesh_eq:
  "example_mesh = \<lparr> mesh_mtrl = Some 0, verts = Some (replicate 24 0), count = 3, vbo = Some 0 \<rparr>"
  by (simp add: example_mesh_def createVBO_def Mesh_new_def example_context_def Mesh_stride_def
      Let_def)

lemma example_bare_mesh_eq:
  "example_bare_mesh = \<lparr> mesh_mtrl = Some 0, verts = Some (replicate 24 0), count = 3, vbo = None \<rparr>"
  by (simp add: example_bare_mesh_def Mesh_new_def Mesh_stride_def)

theorem C7_missing_resource_witness:
  "mesh_mtrl example_bare_mesh = Some 0 \<and> vbo example_bare_mesh = None \<and>
   tex (example_mtrls 0) = None \<and> mesh_mtrl example_mesh = Some 0 \<and>
   new_draws example_mesh_context
     (projr (Mesh_draw example_state example_mtrls example_bare_mesh example_mesh_context)) = [] \<and>
   TEXTURE_2D (render
     (projr (Mesh_draw example_state example_mtrls example_bare_mesh example_mesh_context))) =
     Some example_texture \<and>
   new_draws (projr (Mesh_draw example_state example_mtrls example_bare_mesh example_mesh_context))
     (projr (Mesh_draw example_state example_mtrls example_mesh
        (projr (Mesh_draw example_state example_mtrls example_bare_mesh example_mesh_context)))) =
   new_draws example_mesh_context
     (projr (Mesh_draw example_state example_mtrls example_mesh example_mesh_context))"
proof -
  have 1: "mesh_mtrl example_bare_mesh = Some 0" and 2: "vbo example_bare_mesh = None"
    by (simp_all add: example_bare_mesh_eq)
  have 3: "tex (example_mtrls 0) = None"
    by (simp add: example_mtrls_def Mtrl_new_def)
  have 4: "mesh_mtrl example_mesh = Some 0"
    by (simp add: example_mesh_eq)
  have 5: "defaultTexture example_state = Some example_texture"
    by (simp add: example_state_def)
  note th = C7_missing_resource [OF 1, of example_state example_mtrls example_mesh_context]
  from th 2 have a: "new_draws example_mesh_context
     (projr (Mesh_draw example_state example_mtrls example_bare_mesh example_mesh_context)) = []"
    by blast
  from th 3 have "TEXTURE_2D (render
     (projr (Mesh_draw example_state example_mtrls example_bare_mesh example_mesh_context))) =
     defaultTexture example_state"
    by blast
  with 5 have b: "TEXTURE_2D (render
     (projr (Mesh_draw example_state example_mtrls example_bare_mesh example_mesh_context))) =
     Some example_texture"
    by simp
  from th 4 have c: "new_draws
     (projr (Mesh_draw example_state example_mtrls example_bare_mesh example_mesh_context))
     (projr (Mesh_draw example_state example_mtrls example_mesh
        (projr (Mesh_draw example_state example_mtrls example_bare_mesh example_mesh_context)))) =
   new_draws example_mesh_context
     (projr (Mesh_draw example_state example_mtrls example_mesh example_mesh_context))"
    by blast
  from 1 2 3 4 a b c show ?thesis
    by blast
qed

text \<open>
  C7 as stated, at an uploaded mesh whose material has no texture: the claim has the
  draw call skipped; \<^verbatim>\<open>Mtrl.prototype.draw\<close> binds \<^verbatim>\<open>state.defaultTexture\<close> and the mesh
  issues its \<^verbatim>\<open>drawArrays\<close> over three vertices.
\<close>

theorem C7_untextured_mesh_counterexample:
  "tex (example_mtrls 0) = None \<and> mesh_mtrl example_mesh = Some 0 \<and>
   \<not> isl (Mesh_draw example_state example_mtrls example_mesh example_mesh_context) \<and>
   map snd (new_draws example_mesh_context
     (projr (Mesh_draw example_state example_mtrls example_mesh example_mesh_context))) = [3]"
  by (simp add: example_mtrls_def Mtrl_new_def example_mesh_eq Mesh_draw_def Let_def
      new_draws_def)

section \<open>Stepping the scene\<close>

lemma step_entity_ok:
  assumes "has_Spatial_ModelMatrix_Movers ent" and "movers ent = Some mo"
    and "translate mo = Some t" and "rotate_mover mo = Some r"
  shows "\<exists>ent'. step_entity M glm dt ent store = Inr (ent', step_once M dt t r store)"
proof -
  from assms(1) obtain sp where sp: "spatial ent = Some sp"
    by (auto simp add: has_Spatial_ModelMatrix_Movers_def)
  have 1: "store(t := mover_step M dt (store t)) = step_once M dt t r store" if "t = r"
    using that by (auto simp add: step_once_def fun_eq_iff)
  have 2: "store(t := mover_step M dt (store t), r := mover_step M dt (store r)) =
      step_once M dt t r store" if "t \<noteq> r"
    using that by (auto simp add: step_once_def fun_eq_iff)
  show ?thesis
  proof (cases "t = r")
    case True
    with assms sp 1 show ?thesis
      by (simp add: step_entity_def call_step_def Let_def)
  next
    case False
    with assms sp 2 show ?thesis
      by (simp add: step_entity_def call_step_def Let_def)
  qed
qed

lemma step_entities_append:
  "step_entities M glm dt (xs @ ys) store =
     (case step_entities M glm dt xs store of
        Inl err \<Rightarrow> Inl err
      | Inr (xs', store1) \<Rightarrow>
          (case step_entities M glm dt ys store1 of
             Inl err \<Rightarrow> Inl err
           | Inr (ys', store2) \<Rightarrow> Inr (xs' @ ys', store2)))"
  by (induction xs arbitrary: store) (auto split: sum.splits prod.splits)

lemma step_entities_frame:
  assumes "\<forall>ent \<in> set ents. movers_set ent"
  shows "\<exists>ents' store'. step_entities M glm dt ents store = Inr (ents', store') \<and>
           (\<forall>a. a \<notin> (\<Union>ent \<in> set ents. mover_refs ent) \<longrightarrow> store' a = store a)"
  using assms
proof (induction ents arbitrary: store)
  case Nil
  then show ?case by simp
next
  case (Cons ent ents)
  show ?case
  proof (cases "has_Spatial_ModelMatrix_Movers ent")
    case False
    from Cons.prems have "\<forall>ent \<in> set ents. movers_set ent" by simp
    from Cons.IH [OF this, of store] False show ?thesis
      by auto
  next
    case True
    then obtain mo where mo: "movers ent = Some mo"
      by (auto simp add: has_Spatial_ModelMatrix_Movers_def)
    from Cons.prems have "movers_set ent" by simp
    with True mo obtain t r where t: "translate mo = Some t" and r: "rotate_mover mo = Some r"
      by (auto simp add: movers_set_def)
    from step_entity_ok [OF True mo t r] obtain ent' where
      e: "step_entity M glm dt ent store = Inr (ent', step_once M dt t r store)"
      by blast
    have refs: "mover_refs ent = {t, r}"
      using True mo t r by (auto simp add: mover_refs_def)
    from Cons.prems have "\<forall>ent \<in> set ents. movers_set ent" by simp
    from Cons.IH [OF this, of "step_once M dt t r store"] obtain ents' store' where
      s: "step_entities M glm dt ents (step_once M dt t r store) = Inr (ents', store')"
      and f: "\<forall>a. a \<notin> (\<Union>ent \<in> set ents. mover_refs ent) \<longrightarrow>
                store' a = step_once M dt t r store a"
      by blast
    have "step_entities M glm dt (ent # ents) store = Inr (ent' # ents', store')"
      using True e s by simp
    moreover have "\<forall>a. a \<notin> (\<Union>ent \<in> set (ent # ents). mover_refs ent) \<longrightarrow> store' a = store a"
      using f refs by (auto simp add: step_once_def)
    ultimately show ?thesis by blast
  qed
qed

text \<open>
  C4. For every entity that carries Spatial, ModelMatrix and Movers, one step of the
  scene by \<open>dt\<close> advances its translate mover and its rotate mover once each: the state of
  each after the step is one \<open>mover_step dt\<close> from its state before, also when the two
  references are the same object (one step, not two). The scene is one whose movers are
  set and where no other entity refers to the movers of this one, as the scene builder
  leaves it when \<^verbatim>\<open>Mover.fromSolBody\<close> makes the movers of each body; the step then runs
  to its end without an exception.
\<close>

theorem C4_movers_stepped_once:
  assumes "entities this = before @ ent # after"
    and "has_Spatial_ModelMatrix_Movers ent"
    and "movers ent = Some mo"
    and "translate mo = Some t" and "rotate_mover mo = Some r"
    and "\<forall>other \<in> set (before @ after).
           movers_set other \<and> t \<notin> mover_refs other \<and> r \<notin> mover_refs other"
  shows "\<exists>this' store'. SolidModel_step M glm dt this store = Inr (this', store') \<and>
           store' t = mover_step M dt (store t) \<and>
           store' r = mover_step M dt (store r)"
proof -
  from assms(6) have b: "\<forall>e \<in> set before. movers_set e" and a: "\<forall>e \<in> set after. movers_set e"
    by auto
  from step_entities_frame [OF b, of M glm dt store] obtain before' store1 where
    1: "step_entities M glm dt before store = Inr (before', store1)"
    and f1: "\<forall>a. a \<notin> (\<Union>e \<in> set before. mover_refs e) \<longrightarrow> store1 a = store a"
    by blast
  from step_entity_ok [OF assms(2-5), of M glm dt store1] obtain ent' where
    2: "step_entity M glm dt ent store1 = Inr (ent', step_once M dt t r store1)"
    by blast
  from step_entities_frame [OF a, of M glm dt "step_once M dt t r store1"]
  obtain after' store3 where
    3: "step_entities M glm dt after (step_once M dt t r store1) = Inr (after', store3)"
    and f3: "\<forall>a. a \<notin> (\<Union>e \<in> set after. mover_refs e) \<longrightarrow>
               store3 a = step_once M dt t r store1 a"
    by blast
  have "step_entities M glm dt (before @ ent # after) store = Inr (before' @ ent' # after', store3)"
    using 1 2 3 assms(2) by (simp add: step_entities_append)
  then have r: "SolidModel_step M glm dt this store =
      Inr (this\<lparr> entities := before' @ ent' # after' \<rparr>, store3)"
    by (simp add: SolidModel_step_def assms(1))
  from assms(6) have tb: "t \<notin> (\<Union>e \<in> set before. mover_refs e)"
    and ta: "t \<notin> (\<Union>e \<in> set after. mover_refs e)"
    and rb: "r \<notin> (\<Union>e \<in> set before. mover_refs e)"
    and ra: "r \<notin> (\<Union>e \<in> set after. mover_refs e)"
    by auto
  have "store3 t = mover_step M dt (store t)"
    using f3 ta f1 tb by (simp add: step_once_def)
  moreover have "store3 r = mover_step M dt (store r)"
    using f3 ra f1 rb by (simp add: step_once_def)
  ultimately show ?thesis
    using r by blast
qed

lemma example_scene_entities: "entities example_scene = [example_body 0, example_body 1]"
  by (simp add: example_scene_def fromSol_def SolidModel_new_def example_body_def
      map_filter_def)

lemma example_body_movers:
  "movers (example_body b) = Some \<lparr> translate = Some (2 * b), rotate_mover = Some (2 * b + b mod 2) \<rparr>"
  by (simp add: example_body_def fromSol_body_def Let_def createEntity_def addTag_def
      Movers_new_def example_collaborators_def)

lemma example_body_has: "has_Spatial_ModelMatrix_Movers (example_body b)"
  by (simp add: example_body_def fromSol_body_def Let_def createEntity_def addTag_def
      has_Spatial_ModelMatrix_Movers_def)

theorem C4_movers_stepped_once_witness:
  "entities example_scene = [] @ example_body 0 # [example_body 1] \<and>
   has_Spatial_ModelMatrix_Movers (example_body 0) \<and>
   movers (example_body 0) = Some \<lparr> translate = Some 0, rotate_mover = Some 0 \<rparr> \<and>
   movers_set (example_body 1) \<and> 0 \<notin> mover_refs (example_body 1) \<and>
   \<not> isl (SolidModel_step example_counter example_glm (1 / 60) example_scene (\<lambda>a. 0)) \<and>
   snd (projr (SolidModel_step example_counter example_glm (1 / 60) example_scene (\<lambda>a. 0))) 0 = 1"
proof -
  have 1: "entities example_scene = [] @ example_body 0 # [example_body 1]"
    by (simp add: example_scene_entities)
  have 2: "has_Spatial_ModelMatrix_Movers (example_body 0)"
    by (rule example_body_has)
  have 3: "movers (example_body 0) = Some \<lparr> translate = Some 0, rotate_mover = Some 0 \<rparr>"
    by (simp add: example_body_movers)
  have 4: "translate \<lparr> translate = Some 0, rotate_mover = Some 0 \<rparr> = Some 0"
    and 5: "rotate_mover \<lparr> translate = Some 0, rotate_mover = Some 0 \<rparr> = Some 0"
    by simp_all
  have 6: "movers_set (example_body 1)" and 7: "0 \<notin> mover_refs (example_body 1)"
    by (simp_all add: movers_set_def mover_refs_def example_body_movers example_body_has)
  from 6 7 have 8: "\<forall>other \<in> set ([] @ [example_body 1]).
      movers_set other \<and> 0 \<notin> mover_refs other \<and> 0 \<notin> mover_refs other"
    by simp
  from C4_movers_stepped_once [OF 1 2 3 4 5 8, of example_counter example_glm "1 / 60" "\<lambda>a. 0"]
  obtain this' store' where
    "SolidModel_step example_counter example_glm (1 / 60) example_scene (\<lambda>a. 0) = Inr (this', store')"
    and "store' 0 = mover_step example_counter (1 / 60) 0"
    by blast
  then have "\<not> isl (SolidModel_step example_counter example_glm (1 / 60) example_scene (\<lambda>a. 0))"
    and "snd (projr (SolidModel_step example_counter example_glm (1 / 60) example_scene (\<lambda>a. 0))) 0 = 1"
    by (simp_all add: example_counter_def)
  with 1 2 3 6 7 show ?thesis by blast
qed

end
